theory Spec2Isabelle
  imports Main "HOL-Library.Finite_Map"
begin

section \<open>The API gateway of \<^verbatim>\<open>backend/api-gateway/src/server.js\<close>\<close>

text \<open>
  The gateway is an Express application: a list of middleware and routes, tried in the
  order of registration (lines 45-108), and one error handler (lines 110-112). This theory
  embeds all of them: the handlers the source file writes (\<^verbatim>\<open>validateToken\<close>, the two
  hooks of \<^verbatim>\<open>proxyOptions\<close>, the \<^verbatim>\<open>/swagger.json\<close> aggregator, the error handler) and, as
  far as they decide who answers a request, the library middleware it registers.

  What the source leaves to its libraries enters as a parameter (record \<open>deps\<close>, and the
  field \<open>body_error\<close> of a request): the verification of a token (jsonwebtoken), what the
  proxy middleware does with an outbound call (express-http-proxy and the network), the
  fetch of a documentation file (axios), the headers that express-http-proxy prepares
  before it runs \<^verbatim>\<open>proxyReqOptDecorator\<close>, the outcome of the body parser, and the clock.
\<close>

subsection \<open>JavaScript values\<close>

datatype jsval =
    Undefined
  | Null
  | Bool bool
  | Num int
  | Str string
  | Arr "jsval list"
  | Obj "(string, jsval) fmap"

text \<open>
  Truthiness, as \<^verbatim>\<open>if (v)\<close>, \<^verbatim>\<open>!v\<close> and \<^verbatim>\<open>v || d\<close> test it. Numbers are modelled by
  integers: only being zero matters here.
\<close>

fun truthy :: "jsval \<Rightarrow> bool" where
  "truthy Undefined = False"
| "truthy Null = False"
| "truthy (Bool b) = b"
| "truthy (Num n) = (n \<noteq> 0)"
| "truthy (Str s) = (s \<noteq> [])"
| "truthy (Arr vs) = True"
| "truthy (Obj m) = True"

text \<open>
  Property access \<^verbatim>\<open>v.k\<close> for the names the source reads (\<^verbatim>\<open>paths\<close>, \<^verbatim>\<open>components\<close>,
  \<^verbatim>\<open>userId\<close>, \<^verbatim>\<open>role\<close>): an object gives its member or \<^verbatim>\<open>undefined\<close>; strings, numbers,
  booleans and arrays have no property of these names; on \<^verbatim>\<open>null\<close> and \<^verbatim>\<open>undefined\<close> the
  access throws a TypeError (\<open>None\<close>).
\<close>

fun get_prop :: "jsval \<Rightarrow> string \<Rightarrow> jsval option" where
  "get_prop Undefined k = None"
| "get_prop Null k = None"
| "get_prop (Obj m) k = Some (case fmlookup m k of None \<Rightarrow> Undefined | Some v \<Rightarrow> v)"
| "get_prop v k = Some Undefined"

text \<open>Decimal rendering of an array index, as a property name.\<close>

definition digit_char :: "nat \<Rightarrow> char" where
  "digit_char d = ''0123456789'' ! (d mod 10)"

fun show_nat_aux :: "nat \<Rightarrow> nat \<Rightarrow> string" where
  "show_nat_aux 0 n = []"
| "show_nat_aux (Suc fuel) n =
     (if n < 10 then [digit_char n] else show_nat_aux fuel (n div 10) @ [digit_char n])"

definition show_nat :: "nat \<Rightarrow> string" where
  "show_nat n = show_nat_aux (Suc n) n"

text \<open>
  The own enumerable properties that \<^verbatim>\<open>Object.assign\<close> and the spread \<^verbatim>\<open>{...v}\<close> copy:
  the members of an object, the elements of an array under their indices, the characters
  of a string under their indices, nothing for the other values.
\<close>

fun own_props :: "jsval \<Rightarrow> (string, jsval) fmap" where
  "own_props (Obj m) = m"
| "own_props (Arr vs) = fmap_of_list (zip (map show_nat [0..<length vs]) vs)"
| "own_props (Str s) = fmap_of_list (zip (map show_nat [0..<length s]) (map (\<lambda>c. Str [c]) s))"
| "own_props v = fmempty"

text \<open>
  \<^verbatim>\<open>Object.assign(tgt, src)\<close> on the members of the target. One member name is not
  covered: assigning \<^verbatim>\<open>__proto__\<close> sets the prototype of the target and adds no member.
  The other names never depend on it, and the properties below are stated for them.
\<close>

definition object_assign :: "(string, jsval) fmap \<Rightarrow> jsval \<Rightarrow> (string, jsval) fmap" where
  "object_assign tgt src = tgt ++\<^sub>f own_props src"

text \<open>\<^verbatim>\<open>v || {}\<close>\<close>

definition or_empty :: "jsval \<Rightarrow> jsval" where
  "or_empty v = (if truthy v then v else Obj fmempty)"

subsection \<open>Requests, identities, replies\<close>

type_synonym env = "string \<rightharpoonup> string"

record identity =
  userId :: jsval
  role :: jsval

text \<open>
  A request as the handlers see it: its HTTP verb, \<^verbatim>\<open>req.originalUrl\<close> (a request target
  in origin form), \<^verbatim>\<open>req.headers\<close> (names in lower case), and \<^verbatim>\<open>req.user\<close>, which only
  \<^verbatim>\<open>validateToken\<close> sets. The bytes of the body are not modelled; \<open>body_error\<close> is what
  \<^verbatim>\<open>express.json()\<close> makes of them: \<open>None\<close> when it parses the body or leaves it alone, the
  message of its error when it rejects the body (malformed JSON, for instance).
\<close>

record request =
  req_method :: string
  originalUrl :: string
  headers :: "string \<rightharpoonup> string"
  body_error :: "string option"
  user :: "identity option"

text \<open>
  \<^verbatim>\<open>proxyReqOpts.headers\<close> is an object that the decorator assigns to: its members in
  insertion order.
\<close>

record proxyReqOpts =
  opt_headers :: "(string \<times> jsval) list"

text \<open>The outbound call, as far as the source decides it.\<close>

record outbound =
  target :: "string option"
  path :: string
  out_headers :: "(string \<times> jsval) list"
  timeout :: nat
  parseReqBody :: bool

record backend_response =
  b_status :: nat
  b_headers :: "(string \<times> string) list"
  b_body :: string

text \<open>
  What express-http-proxy does with a call that went out: it relays the backend's answer;
  or it ends the exchange with an answer of its own, of the given status (what it does
  with a call that was reset); or it passes the error on with \<^verbatim>\<open>next(err)\<close>, \<open>err.message\<close>
  given. Which failure of the network leads to which of the last two is the library's
  matter and is not fixed here.
\<close>

datatype proxied =
    Relay backend_response
  | Own_reply nat
  | Pass_on string

text \<open>The result of \<^verbatim>\<open>Promise.allSettled\<close> for one fetch; \<open>Fulfilled d\<close> carries \<^verbatim>\<open>r.value.data\<close>.\<close>

datatype settled = Fulfilled jsval | Rejected

text \<open>
  What the caller receives: \<open>Json s v\<close> is \<^verbatim>\<open>res.status(s).json(v)\<close>; \<open>Relayed r\<close> stands for
  the proxy middleware handing back the backend's answer \<open>r\<close> (how the library copies
  status, headers and body is not modelled); \<open>Proxy_reply s\<close> is an answer of status \<open>s\<close>
  that express-http-proxy writes itself; \<open>Preflight\<close> is the answer of the cors middleware
  to an \<^verbatim>\<open>OPTIONS\<close> request (status 204, its \<^verbatim>\<open>optionsSuccessStatus\<close>); \<open>Docs_ui\<close> is whatever
  swagger-ui-express serves; \<open>Not_found\<close> is Express's answer when no route matches
  (status 404).
\<close>

datatype reply =
    Json nat jsval
  | Relayed backend_response
  | Proxy_reply nat
  | Preflight
  | Docs_ui
  | Not_found

fun status_of :: "reply \<Rightarrow> nat option" where
  "status_of (Json s v) = Some s"
| "status_of (Relayed r) = Some (b_status r)"
| "status_of (Proxy_reply s) = Some s"
| "status_of Preflight = Some 204"
| "status_of Docs_ui = None"
| "status_of Not_found = Some 404"

text \<open>
  The surroundings of one exchange. \<open>verify token secret\<close> is \<^verbatim>\<open>jwt.verify\<close>: the decoded
  payload, or \<open>None\<close> when it throws. \<open>proxy c\<close> is what the proxy middleware does with the
  outbound call \<open>c\<close>. \<open>fetch url\<close> is the settled \<^verbatim>\<open>axios.get(url)\<close>. \<open>base_headers hs\<close> are
  the headers that express-http-proxy prepares for the outbound call, from the headers
  \<open>hs\<close> of the request, before it runs \<^verbatim>\<open>proxyReqOptDecorator\<close>. \<open>now\<close> is
  \<^verbatim>\<open>new Date().toISOString()\<close>.
\<close>

record deps =
  verify :: "string \<Rightarrow> string \<Rightarrow> jsval option"
  proxy :: "outbound \<Rightarrow> proxied"
  fetch :: "string \<Rightarrow> settled"
  base_headers :: "(string \<rightharpoonup> string) \<Rightarrow> (string \<times> string) list"
  now :: string

text \<open>
  A handler ends the exchange (\<open>Done\<close>, with the outbound calls that went out), passes the
  request on (\<open>Next\<close>, \<^verbatim>\<open>next()\<close>), or passes an error on (\<open>Next_err\<close>, \<^verbatim>\<open>next(err)\<close>, with
  \<open>err.message\<close>).
\<close>

datatype step =
    Done reply "outbound list"
  | Next request
  | Next_err string "outbound list"

subsection \<open>The proxy options (lines 13-28)\<close>

text \<open>\<^verbatim>\<open>s.replace(/^pat/, rep)\<close> for a literal pattern anchored at the start.\<close>

definition replace_at_start :: "string \<Rightarrow> string \<Rightarrow> string \<Rightarrow> string" where
  "replace_at_start pat rep s =
     (if take (length pat) s = pat then rep @ drop (length pat) s else s)"

definition proxyReqPathResolver :: "request \<Rightarrow> string" where
  "proxyReqPathResolver req = replace_at_start ''/v1'' ''/api'' (originalUrl req)"

text \<open>
  \<^verbatim>\<open>headers[k] = v\<close>: a member that exists keeps its place and takes the value, a new one
  goes to the end (\<open>AList.update\<close>).
\<close>

definition proxyReqOptDecorator :: "proxyReqOpts \<Rightarrow> request \<Rightarrow> proxyReqOpts" where
  "proxyReqOptDecorator opts srcReq =
     (let h0 = opt_headers opts;
          h1 = (case user srcReq of
                  None \<Rightarrow> h0
                | Some u \<Rightarrow>
                    (let h = AList.update ''x-user-id'' (userId u) h0
                     in if truthy (role u) then AList.update ''x-user-role'' (role u) h else h));
          h2 = (case headers srcReq ''authorization'' of
                  None \<Rightarrow> h1
                | Some a \<Rightarrow> if a \<noteq> [] then AList.update ''authorization'' (Str a) h1 else h1)
      in opts\<lparr>opt_headers := h2\<rparr>)"

text \<open>The call built from the options of lines 14-27.\<close>

definition outgoing :: "deps \<Rightarrow> string option \<Rightarrow> request \<Rightarrow> outbound" where
  "outgoing D targetUrl req =
     \<lparr>target = targetUrl,
      path = proxyReqPathResolver req,
      out_headers =
        opt_headers
          (proxyReqOptDecorator
             \<lparr>opt_headers = map (\<lambda>(k, v). (k, Str v)) (base_headers D (headers req))\<rparr> req),
      timeout = 30000,
      parseReqBody = True\<rparr>"

text \<open>
  Node's HTTP client checks every header value before a request goes out
  (\<^verbatim>\<open>validateHeaderValue\<close>): \<^verbatim>\<open>undefined\<close> is refused, and so is a value whose text holds a
  character outside tab, \<^verbatim>\<open>0x20-0x7e\<close> and \<^verbatim>\<open>0x80-0xff\<close>. The text of an array is that
  of its elements, joined by commas; the other values render in legal characters. The
  first offending header, in the order of the object, gives the error its message. This
  is how a token without \<^verbatim>\<open>userId\<close> ends: line 20 assigns \<^verbatim>\<open>undefined\<close> to \<^verbatim>\<open>x-user-id\<close>.
\<close>

definition legal_header_char :: "char \<Rightarrow> bool" where
  "legal_header_char c = (c = CHR 0x09 \<or> (32 \<le> (of_char c :: nat) \<and> (of_char c :: nat) \<noteq> 127))"

fun chars_ok :: "jsval \<Rightarrow> bool" where
  "chars_ok (Str s) = (\<forall>c \<in> set s. legal_header_char c)"
| "chars_ok (Arr vs) = (\<forall>v \<in> set vs. chars_ok v)"
| "chars_ok v = True"

definition header_value_ok :: "jsval \<Rightarrow> bool" where
  "header_value_ok v = (v \<noteq> Undefined \<and> chars_ok v)"

definition quoted :: "string \<Rightarrow> string" where
  "quoted s = CHR 0x22 # s @ [CHR 0x22]"

definition invalid_header_message :: "string \<Rightarrow> jsval \<Rightarrow> string" where
  "invalid_header_message k v =
     (if v = Undefined then ''Invalid value '' @ quoted ''undefined'' @ '' for header '' @ quoted k
      else ''Invalid character in header content ['' @ quoted k @ '']'')"

definition refused :: "outbound \<Rightarrow> string option" where
  "refused c =
     (case find (\<lambda>kv. \<not> header_value_ok (snd kv)) (out_headers c) of
        None \<Rightarrow> None
      | Some kv \<Rightarrow> Some (invalid_header_message (fst kv) (snd kv)))"

text \<open>
  The middleware \<^verbatim>\<open>proxy(targetUrl, {...})\<close>. When the HTTP client refuses the options no
  call goes out, and express-http-proxy passes the error on. Otherwise one call goes out,
  and the library relays the answer, answers itself, or passes the error on.
\<close>

definition proxyOptions :: "deps \<Rightarrow> string option \<Rightarrow> request \<Rightarrow> step" where
  "proxyOptions D targetUrl req =
     (let c = outgoing D targetUrl req
      in case refused c of
           Some msg \<Rightarrow> Next_err msg []
         | None \<Rightarrow>
             (case proxy D c of
                Relay r \<Rightarrow> Done (Relayed r) [c]
              | Own_reply s \<Rightarrow> Done (Proxy_reply s) [c]
              | Pass_on msg \<Rightarrow> Next_err msg [c]))"

subsection \<open>Token validation (lines 30-43)\<close>

text \<open>\<^verbatim>\<open>s.split(' ')\<close>\<close>

fun split_on :: "char \<Rightarrow> string \<Rightarrow> string list" where
  "split_on sep [] = [[]]"
| "split_on sep (c # cs) =
     (if c = sep then [] # split_on sep cs
      else (case split_on sep cs of
              [] \<Rightarrow> [[c]]
            | w # ws \<Rightarrow> (c # w) # ws))"

text \<open>\<^verbatim>\<open>process.env.JWT_SECRET || 'secret'\<close>\<close>

definition jwt_secret :: "env \<Rightarrow> string" where
  "jwt_secret e =
     (case e ''JWT_SECRET'' of
        None \<Rightarrow> ''secret''
      | Some s \<Rightarrow> if s \<noteq> [] then s else ''secret'')"

definition unauthorized :: "string \<Rightarrow> reply" where
  "unauthorized msg =
     Json 401 (Obj (fmap_of_list [(''success'', Bool False), (''message'', Str msg)]))"

text \<open>
  The \<^verbatim>\<open>try\<close> block: \<^verbatim>\<open>jwt.verify\<close> throws (\<open>None\<close>) on a token it rejects, also on
  the \<^verbatim>\<open>undefined\<close> that \<^verbatim>\<open>split(' ')[1]\<close> gives when there is no second piece; reading
  a property of \<^verbatim>\<open>null\<close> throws as well. Every throw lands in the \<^verbatim>\<open>catch\<close>.
\<close>

definition validateToken :: "deps \<Rightarrow> env \<Rightarrow> request \<Rightarrow> step" where
  "validateToken D e req =
     (case headers req ''authorization'' of
        None \<Rightarrow> Done (unauthorized ''Unauthorized'') []
      | Some auth \<Rightarrow>
          if auth = [] \<or> take 7 auth \<noteq> ''Bearer '' then Done (unauthorized ''Unauthorized'') []
          else (case split_on CHR '' '' auth of
                  _ # token # _ \<Rightarrow>
                    (case verify D token (jwt_secret e) of
                       None \<Rightarrow> Done (unauthorized ''Invalid token'') []
                     | Some decoded \<Rightarrow>
                         (case (get_prop decoded ''userId'', get_prop decoded ''role'') of
                            (Some uid, Some r) \<Rightarrow> Next (req\<lparr>user := Some \<lparr>userId = uid, role = r\<rparr>\<rparr>)
                          | _ \<Rightarrow> Done (unauthorized ''Invalid token'') []))
                | _ \<Rightarrow> Done (unauthorized ''Invalid token'') []))"

subsection \<open>The documentation aggregator (lines 70-94)\<close>

text \<open>\<^verbatim>\<open>`${process.env.X}/docs/swagger.json`\<close>: an unset variable renders as \<^verbatim>\<open>undefined\<close>.\<close>

definition docs_url :: "env \<Rightarrow> string \<Rightarrow> string" where
  "docs_url e var = (case e var of None \<Rightarrow> ''undefined'' | Some u \<Rightarrow> u) @ ''/docs/swagger.json''"

definition services :: "env \<Rightarrow> string list" where
  "services e =
     [docs_url e ''USER_SERVICE_URL'',
      docs_url e ''WORKSHEET_SERVICE_URL'',
      docs_url e ''PAYMENT_SERVICE_URL'',
      docs_url e ''NOTIFICATION_SERVICE_URL'']"

text \<open>
  The body of the \<^verbatim>\<open>forEach\<close>, on the pair \<^verbatim>\<open>(mergedPaths, mergedComponents)\<close>. The
  guard makes \<^verbatim>\<open>r.value.data\<close> truthy, so both property reads succeed.
\<close>

definition merge_result ::
  "(string, jsval) fmap \<times> (string, jsval) fmap \<Rightarrow> settled \<Rightarrow>
   (string, jsval) fmap \<times> (string, jsval) fmap" where
  "merge_result acc r =
     (case r of
        Rejected \<Rightarrow> acc
      | Fulfilled d \<Rightarrow>
          if truthy d then
            (case (get_prop d ''paths'', get_prop d ''components'') of
               (Some p, Some c) \<Rightarrow>
                 (object_assign (fst acc) (or_empty p), object_assign (snd acc) (or_empty c))
             | _ \<Rightarrow> acc)
          else acc)"

definition bearerAuth :: jsval where
  "bearerAuth =
     Obj (fmap_of_list
       [(''bearerAuth'',
         Obj (fmap_of_list
           [(''type'', Str ''http''), (''scheme'', Str ''bearer''), (''bearerFormat'', Str ''JWT'')]))])"

definition security_requirement :: jsval where
  "security_requirement = Arr [Obj (fmap_of_list [(''bearerAuth'', Arr [])])]"

definition swagger_doc :: "deps \<Rightarrow> env \<Rightarrow> jsval" where
  "swagger_doc D e =
     (let results = map (fetch D) (services e);
          merged = foldl merge_result (fmempty, fmempty) results
      in Obj (fmap_of_list
           [(''openapi'', Str ''3.0.0''),
            (''info'', Obj (fmap_of_list [(''title'', Str ''API Docs''), (''version'', Str ''1.0.0'')])),
            (''servers'',
               Arr [Obj (fmap_of_list
                      [(''url'', Str ''http://localhost:3000''), (''description'', Str ''Local'')])]),
            (''components'', Obj (fmupd ''securitySchemes'' bearerAuth (snd merged))),
            (''security'', security_requirement),
            (''paths'', Obj (fst merged))]))"

definition swagger_json :: "deps \<Rightarrow> env \<Rightarrow> request \<Rightarrow> step" where
  "swagger_json D e req = Done (Json 200 (swagger_doc D e)) []"

subsection \<open>The other handlers\<close>

text \<open>
  \<^verbatim>\<open>express.json()\<close> (line 45) passes the request on, or its error. \<^verbatim>\<open>helmet(...)\<close>
  (line 46) sets response headers and passes the request on. \<^verbatim>\<open>cors(...)\<close> (lines 47-52,
  without \<^verbatim>\<open>preflightContinue\<close>) answers every \<^verbatim>\<open>OPTIONS\<close> request itself and passes the
  others on.
\<close>

definition express_json :: "request \<Rightarrow> step" where
  "express_json req = (case body_error req of None \<Rightarrow> Next req | Some msg \<Rightarrow> Next_err msg [])"

definition helmet :: "request \<Rightarrow> step" where
  "helmet req = Next req"

definition cors :: "request \<Rightarrow> step" where
  "cors req = (if req_method req = ''OPTIONS'' then Done Preflight [] else Next req)"

definition health :: "deps \<Rightarrow> request \<Rightarrow> step" where
  "health D req =
     Done (Json 200 (Obj (fmap_of_list
       [(''status'', Str ''healthy''), (''service'', Str ''api-gateway''),
        (''timestamp'', Str (now D))]))) []"

definition root :: "request \<Rightarrow> step" where
  "root req =
     Done (Json 200 (Obj (fmap_of_list
       [(''service'', Str ''API Gateway''), (''version'', Str ''1.0.0''),
        (''endpoints'', Obj (fmap_of_list
           [(''health'', Str ''/health''), (''docs'', Str ''/api-docs''),
            (''user'', Str ''/v1/user''), (''worksheet'', Str ''/v1/worksheet''),
            (''payment'', Str ''/v1/payment''), (''notification'', Str ''/v1/notification'')]))]))) []"

definition api_docs :: "request \<Rightarrow> step" where
  "api_docs req = Done Docs_ui []"

text \<open>\<^verbatim>\<open>err.message || 'Internal server error'\<close> (lines 110-112)\<close>

definition error_handler :: "string \<Rightarrow> reply" where
  "error_handler msg =
     Json 500 (Obj (fmap_of_list
       [(''error'', Str (if msg \<noteq> [] then msg else ''Internal server error''))]))"

subsection \<open>Route matching and dispatch\<close>

text \<open>
  Express routes on the path of the URL, which it takes with \<^verbatim>\<open>parseurl\<close>: the part before
  the first \<^verbatim>\<open>?\<close>. When the URL holds a \<^verbatim>\<open>#\<close> or white space (tab, line feed, form feed,
  carriage return, space, \<^verbatim>\<open>0xa0\<close>), \<^verbatim>\<open>parseurl\<close> hands it to Node's \<^verbatim>\<open>url.parse\<close> instead,
  which trims the white space at both ends, ends the path at the first \<^verbatim>\<open>?\<close> or \<^verbatim>\<open>#\<close>, and
  turns the backslashes before it into slashes.

  The request target is taken in origin form (it starts with a slash), with no control
  character that Node's HTTP parser would refuse. Two things \<^verbatim>\<open>url.parse\<close> does are left
  out. It percent-escapes some punctuation and inner white space: that touches no letter,
  digit or slash, so no comparison with a route below. And it reads a target that starts
  with \<^verbatim>\<open>//user@host\<close> as naming a host: such targets are not covered.

  The path is matched without regard to letter case (``case sensitive routing'' is off by
  default). A route (\<^verbatim>\<open>app.get\<close>, \<^verbatim>\<open>app.post\<close>) matches its path with the trailing slash
  optional (``strict routing'' is off): \<^verbatim>\<open>/v1/user/login\<close> compiles to
  \<^verbatim>\<open>/^\/v1\/user\/login\/?$/i\<close>, and \<^verbatim>\<open>/\<close> to \<^verbatim>\<open>/^\/?$/i\<close>. A mount (\<^verbatim>\<open>app.use\<close>) matches its
  path as a prefix that ends at a segment boundary: \<^verbatim>\<open>/v1/user\<close> compiles to
  \<^verbatim>\<open>/^\/v1\/user\/?(?=\/|$)/i\<close>. A \<^verbatim>\<open>get\<close> route also serves \<^verbatim>\<open>HEAD\<close>. The handlers read
  \<^verbatim>\<open>req.originalUrl\<close>, which a mount leaves whole.
\<close>

definition lower_char :: "char \<Rightarrow> char" where
  "lower_char c =
     (case map_of (zip ''ABCDEFGHIJKLMNOPQRSTUVWXYZ'' ''abcdefghijklmnopqrstuvwxyz'') c of
        None \<Rightarrow> c
      | Some l \<Rightarrow> l)"

definition white_space :: "char \<Rightarrow> bool" where
  "white_space c = (c \<in> set [CHR 0x09, CHR 0x0A, CHR 0x0C, CHR 0x0D, CHR 0x20, CHR 0xA0])"

definition trim :: "string \<Rightarrow> string" where
  "trim s = rev (dropWhile white_space (rev (dropWhile white_space s)))"

definition url_path :: "string \<Rightarrow> string" where
  "url_path url =
     (if \<exists>c \<in> set url. c = CHR ''#'' \<or> white_space c
      then map (\<lambda>c. if c = CHR 0x5C then CHR ''/'' else c)
             (takeWhile (\<lambda>c. c \<noteq> CHR ''?'' \<and> c \<noteq> CHR ''#'') (trim url))
      else takeWhile (\<lambda>c. c \<noteq> CHR ''?'') url)"

definition pathname :: "request \<Rightarrow> string" where
  "pathname req = map lower_char (url_path (originalUrl req))"

definition route_path :: "string \<Rightarrow> request \<Rightarrow> bool" where
  "route_path pat req =
     (pathname req = pat \<or>
      (if pat \<noteq> [] \<and> last pat = CHR ''/'' then pathname req = butlast pat
       else pathname req = pat @ ''/''))"

definition app_get :: "string \<Rightarrow> request \<Rightarrow> bool" where
  "app_get pat req = ((req_method req = ''GET'' \<or> req_method req = ''HEAD'') \<and> route_path pat req)"

definition app_post :: "string \<Rightarrow> request \<Rightarrow> bool" where
  "app_post pat req = (req_method req = ''POST'' \<and> route_path pat req)"

definition app_use :: "string \<Rightarrow> request \<Rightarrow> bool" where
  "app_use pat req =
     (take (length pat) (pathname req) = pat \<and>
      (case drop (length pat) (pathname req) of [] \<Rightarrow> True | c # _ \<Rightarrow> c = CHR ''/''))"

type_synonym layer = "(request \<Rightarrow> bool) \<times> (request \<Rightarrow> step)"

text \<open>
  The routes of lines 54-108, in the order of registration; \<^verbatim>\<open>app.use(p, f, g)\<close> is two
  layers on the same path.
\<close>

definition routes :: "deps \<Rightarrow> env \<Rightarrow> layer list" where
  "routes D e =
     [(app_get ''/health'', health D),
      (app_get ''/'', root),
      (app_get ''/swagger.json'', swagger_json D e),
      (app_use ''/api-docs'', api_docs),
      (app_post ''/v1/user/login'', proxyOptions D (e ''USER_SERVICE_URL'')),
      (app_post ''/v1/user/register'', proxyOptions D (e ''USER_SERVICE_URL'')),
      (app_post ''/v1/payment/packages/list'', proxyOptions D (e ''PAYMENT_SERVICE_URL'')),
      (app_use ''/v1/user'', validateToken D e),
      (app_use ''/v1/user'', proxyOptions D (e ''USER_SERVICE_URL'')),
      (app_use ''/v1/worksheet'', validateToken D e),
      (app_use ''/v1/worksheet'', proxyOptions D (e ''WORKSHEET_SERVICE_URL'')),
      (app_use ''/v1/payment'', validateToken D e),
      (app_use ''/v1/payment'', proxyOptions D (e ''PAYMENT_SERVICE_URL'')),
      (app_use ''/v1/notification'', proxyOptions D (e ''NOTIFICATION_SERVICE_URL''))]"

text \<open>The whole stack: the three middleware of lines 45-52 run on every request first.\<close>

definition stack :: "deps \<Rightarrow> env \<Rightarrow> layer list" where
  "stack D e =
     [(\<lambda>req. True, express_json),
      (\<lambda>req. True, helmet),
      (\<lambda>req. True, cors)] @ routes D e"

text \<open>
  The router: the first matching layer runs; \<^verbatim>\<open>next()\<close> resumes the search after it;
  \<^verbatim>\<open>next(err)\<close> skips to the only error handler (line 110); with no layer left the answer
  is Express's 404.
\<close>

fun run :: "layer list \<Rightarrow> request \<Rightarrow> reply \<times> outbound list" where
  "run [] req = (Not_found, [])"
| "run (l # ls) req =
     (if fst l req then
        (case snd l req of
           Done r cs \<Rightarrow> (r, cs)
         | Next req' \<Rightarrow> run ls req'
         | Next_err msg cs \<Rightarrow> (error_handler msg, cs))
      else run ls req)"

text \<open>An incoming request has no \<^verbatim>\<open>user\<close> property: only \<^verbatim>\<open>validateToken\<close> sets it.\<close>

definition gateway :: "deps \<Rightarrow> env \<Rightarrow> request \<Rightarrow> reply \<times> outbound list" where
  "gateway D e req = run (stack D e) (req\<lparr>user := None\<rparr>)"

subsection \<open>Notions used to state and prove the properties\<close>

text \<open>The routes of lines 54-108 alone, on a request that has passed lines 45-52.\<close>

definition router :: "deps \<Rightarrow> env \<Rightarrow> request \<Rightarrow> reply \<times> outbound list" where
  "router D e req = run (routes D e) (req\<lparr>user := None\<rparr>)"

text \<open>Every route below line 100 lies under \<^verbatim>\<open>/v1/\<close>.\<close>

definition under_v1 :: "request \<Rightarrow> bool" where
  "under_v1 r = (take 4 (pathname r) = ''/v1/'')"

text \<open>
  What a proxy layer and a guarded mount (\<^verbatim>\<open>validateToken\<close>, then the proxy) make of a
  request that matches them.
\<close>

definition forward :: "deps \<Rightarrow> string option \<Rightarrow> request \<Rightarrow> reply \<times> outbound list" where
  "forward D t r =
     (case refused (outgoing D t r) of
        Some msg \<Rightarrow> (error_handler msg, [])
      | None \<Rightarrow>
          (case proxy D (outgoing D t r) of
             Relay b \<Rightarrow> Relayed b
           | Own_reply s \<Rightarrow> Proxy_reply s
           | Pass_on msg \<Rightarrow> error_handler msg,
           [outgoing D t r]))"

definition guarded :: "deps \<Rightarrow> env \<Rightarrow> string option \<Rightarrow> request \<Rightarrow> reply \<times> outbound list" where
  "guarded D e t r =
     (case validateToken D e r of
        Done rp cs \<Rightarrow> (rp, cs)
      | Next r' \<Rightarrow> forward D t r'
      | Next_err msg cs \<Rightarrow> (error_handler msg, cs))"

text \<open>The three public routes and the open mount: the layers that forward without \<^verbatim>\<open>validateToken\<close>.\<close>

definition unguarded :: "request \<Rightarrow> bool" where
  "unguarded r =
     (app_post ''/v1/user/login'' r \<or> app_post ''/v1/user/register'' r \<or>
      app_post ''/v1/payment/packages/list'' r \<or> app_use ''/v1/notification'' r)"

text \<open>
  The aggregation as the specification words it: a backend contributes the members of its
  \<^verbatim>\<open>paths\<close> (or \<^verbatim>\<open>components\<close>) object when its fetch succeeded with a document, and nothing
  otherwise; on a key collision the last contribution, in the configured order, wins.
\<close>

fun contribution :: "string \<Rightarrow> settled \<Rightarrow> (string, jsval) fmap option" where
  "contribution k Rejected = None"
| "contribution k (Fulfilled d) =
     (if truthy d then
        (case get_prop d k of None \<Rightarrow> None | Some v \<Rightarrow> Some (own_props (or_empty v)))
      else None)"

definition last_write_wins :: "(string, jsval) fmap list \<Rightarrow> string \<Rightarrow> jsval option" where
  "last_write_wins cs k =
     (let writers = filter (\<lambda>c. fmlookup c k \<noteq> None) cs
      in if writers = [] then None else fmlookup (last writers) k)"

subsection \<open>Example inputs\<close>

definition demo_deps :: deps where
  "demo_deps =
     \<lparr>verify = (\<lambda>token secret.
         if secret = ''secret'' \<and> token = ''admin-token''
           then Some (Obj (fmap_of_list [(''userId'', Str ''u1''), (''role'', Str ''admin'')]))
         else if secret = ''secret'' \<and> token = ''plain-token''
           then Some (Obj (fmap_of_list [(''userId'', Str ''u2'')]))
         else if secret = ''secret'' \<and> token = ''anonymous-token''
           then Some (Obj (fmap_of_list [(''role'', Str ''admin'')]))
         else None),
      proxy = (\<lambda>c. if target c = Some ''http://user''
                    then Relay \<lparr>b_status = 200, b_headers = [], b_body = ''ok''\<rparr>
                    else if target c = Some ''http://payment'' then Own_reply 504
                    else Pass_on ''connect ECONNREFUSED 127.0.0.1:4004''),
      fetch = (\<lambda>url. Rejected),
      base_headers = (\<lambda>hs. List.map_filter (\<lambda>k. map_option (Pair k) (hs k))
                        [''accept'', ''authorization'', ''x-user-role'']),
      now = ''2024-01-01T00:00:00.000Z''\<rparr>"

definition demo_env :: env where
  "demo_env =
     [''USER_SERVICE_URL'' \<mapsto> ''http://user'',
      ''WORKSHEET_SERVICE_URL'' \<mapsto> ''http://worksheet'',
      ''PAYMENT_SERVICE_URL'' \<mapsto> ''http://payment'',
      ''NOTIFICATION_SERVICE_URL'' \<mapsto> ''http://notification'']"

definition no_token_request :: request where
  "no_token_request =
     \<lparr>req_method = ''GET'', originalUrl = ''/v1/user/profile'', headers = Map.empty,
      body_error = None, user = None\<rparr>"

definition forged_token_request :: request where
  "forged_token_request =
     \<lparr>req_method = ''DELETE'', originalUrl = ''/v1/worksheet/42'',
      headers = [''authorization'' \<mapsto> ''Bearer forged''], body_error = None, user = None\<rparr>"

definition basic_auth_request :: request where
  "basic_auth_request =
     \<lparr>req_method = ''GET'', originalUrl = ''/v1/payment/packages/list'',
      headers = [''authorization'' \<mapsto> ''Basic dXNlcjpwdw==''], body_error = None, user = None\<rparr>"

definition options_request :: request where
  "options_request =
     \<lparr>req_method = ''OPTIONS'', originalUrl = ''/v1/user/profile'', headers = Map.empty,
      body_error = None, user = None\<rparr>"

definition malformed_body_request :: request where
  "malformed_body_request =
     \<lparr>req_method = ''PUT'', originalUrl = ''/v1/user/profile'', headers = Map.empty,
      body_error = Some ''Unexpected end of JSON input'', user = None\<rparr>"

definition login_request :: request where
  "login_request =
     \<lparr>req_method = ''POST'', originalUrl = ''/v1/user/login'',
      headers = [''authorization'' \<mapsto> ''Bearer admin-token''], body_error = None, user = None\<rparr>"

definition hash_login_request :: request where
  "hash_login_request =
     \<lparr>req_method = ''POST'', originalUrl = ''/v1/user/login#form'', headers = Map.empty,
      body_error = None, user = None\<rparr>"

definition packages_request :: request where
  "packages_request =
     \<lparr>req_method = ''POST'', originalUrl = ''/V1/Payment/Packages/List/?page=2'',
      headers = Map.empty, body_error = None, user = None\<rparr>"

definition notification_request :: request where
  "notification_request =
     \<lparr>req_method = ''PUT'', originalUrl = ''/v1/notification/v1/send?next=/v1'',
      headers = [''authorization'' \<mapsto> ''garbage''], body_error = None, user = None\<rparr>"

definition options_notification_request :: request where
  "options_notification_request =
     \<lparr>req_method = ''OPTIONS'', originalUrl = ''/v1/notification/inbox'', headers = Map.empty,
      body_error = None, user = None\<rparr>"

definition upper_case_request :: request where
  "upper_case_request =
     \<lparr>req_method = ''GET'', originalUrl = ''/V1/notification/inbox'', headers = Map.empty,
      body_error = None, user = None\<rparr>"

definition admin_token_request :: request where
  "admin_token_request =
     \<lparr>req_method = ''GET'', originalUrl = ''/v1/user/profile'',
      headers = [''authorization'' \<mapsto> ''Bearer admin-token''], body_error = None, user = None\<rparr>"

definition plain_token_request :: request where
  "plain_token_request =
     \<lparr>req_method = ''GET'', originalUrl = ''/v1/user/profile'',
      headers = [''authorization'' \<mapsto> ''Bearer plain-token''], body_error = None, user = None\<rparr>"

definition spoofed_role_request :: request where
  "spoofed_role_request =
     \<lparr>req_method = ''GET'', originalUrl = ''/v1/user/profile'',
      headers = [''authorization'' \<mapsto> ''Bearer plain-token'', ''x-user-role'' \<mapsto> ''admin''],
      body_error = None, user = None\<rparr>"

definition anonymous_token_request :: request where
  "anonymous_token_request =
     \<lparr>req_method = ''GET'', originalUrl = ''/v1/user/profile'',
      headers = [''authorization'' \<mapsto> ''Bearer anonymous-token''], body_error = None, user = None\<rparr>"

definition user_docs :: jsval where
  "user_docs =
     Obj (fmap_of_list
       [(''paths'', Obj (fmap_of_list [(''/login'', Str ''user login''), (''/status'', Str ''user status'')])),
        (''components'', Obj (fmap_of_list
           [(''schemas'', Str ''user schemas''),
            (''securitySchemes'', Obj (fmap_of_list [(''apiKey'', Str ''header'')]))]))])"

definition payment_docs :: jsval where
  "payment_docs =
     Obj (fmap_of_list
       [(''paths'', Obj (fmap_of_list [(''/status'', Str ''payment status'')])),
        (''components'', Obj (fmap_of_list [(''schemas'', Str ''payment schemas'')]))])"

definition docs_deps :: deps where
  "docs_deps =
     demo_deps\<lparr>fetch := (\<lambda>url.
        if url = ''http://user/docs/swagger.json'' then Fulfilled user_docs
        else if url = ''http://payment/docs/swagger.json'' then Fulfilled payment_docs
        else Rejected)\<rparr>"

definition docs_request :: request where
  "docs_request =
     \<lparr>req_method = ''GET'', originalUrl = ''/swagger.json'', headers = Map.empty,
      body_error = None, user = None\<rparr>"

definition malformed_docs_request :: request where
  "malformed_docs_request =
     \<lparr>req_method = ''GET'', originalUrl = ''/swagger.json'',
      headers = [''content-type'' \<mapsto> ''application/json''],
      body_error = Some ''Unexpected end of JSON input'', user = None\<rparr>"

subsection \<open>Route matching\<close>

lemma pathname_user [simp]: "pathname (r\<lparr>user := u\<rparr>) = pathname r"
  by (simp add: pathname_def)

lemma matchers_user [simp]:
  "app_get p (r\<lparr>user := u\<rparr>) = app_get p r"
  "app_post p (r\<lparr>user := u\<rparr>) = app_post p r"
  "app_use p (r\<lparr>user := u\<rparr>) = app_use p r"
  by (simp_all add: app_get_def app_post_def app_use_def route_path_def)

lemma take_of_take: "take n xs = ys \<Longrightarrow> m \<le> n \<Longrightarrow> take m xs = take m ys"
  by (metis min.absorb1 take_take)

lemma use_v1:
  "app_use ''/v1/user'' r \<Longrightarrow> under_v1 r"
  "app_use ''/v1/worksheet'' r \<Longrightarrow> under_v1 r"
  "app_use ''/v1/payment'' r \<Longrightarrow> under_v1 r"
  "app_use ''/v1/notification'' r \<Longrightarrow> under_v1 r"
  unfolding app_use_def under_v1_def
  by (auto dest: take_of_take [where m = 4])

lemma post_v1:
  "app_post ''/v1/user/login'' r \<Longrightarrow> under_v1 r"
  "app_post ''/v1/user/register'' r \<Longrightarrow> under_v1 r"
  "app_post ''/v1/payment/packages/list'' r \<Longrightarrow> under_v1 r"
  unfolding app_post_def route_path_def under_v1_def
  by auto

lemma v1_static:
  assumes "under_v1 r"
  shows "\<not> app_get ''/health'' r" "\<not> app_get ''/'' r" "\<not> app_get ''/swagger.json'' r"
    "\<not> app_use ''/api-docs'' r"
  using assms unfolding under_v1_def app_get_def app_use_def route_path_def
  by (auto dest: take_of_take [where m = 4])

lemma use_clash:
  assumes "app_use a r" and "app_use b r" and "k \<le> length a" and "k \<le> length b"
  shows "take k a = take k b"
proof -
  have "take (length a) (pathname r) = a" and "take (length b) (pathname r) = b"
    using assms(1,2) by (simp_all add: app_use_def)
  then have "take k (pathname r) = take k a" and "take k (pathname r) = take k b"
    using assms(3,4) by (metis min.absorb1 take_take)+
  then show ?thesis by simp
qed

lemma mounts_disjoint:
  "app_use ''/v1/user'' r \<Longrightarrow> \<not> app_use ''/v1/worksheet'' r"
  "app_use ''/v1/user'' r \<Longrightarrow> \<not> app_use ''/v1/payment'' r"
  "app_use ''/v1/user'' r \<Longrightarrow> \<not> app_use ''/v1/notification'' r"
  "app_use ''/v1/worksheet'' r \<Longrightarrow> \<not> app_use ''/v1/payment'' r"
  "app_use ''/v1/worksheet'' r \<Longrightarrow> \<not> app_use ''/v1/notification'' r"
  "app_use ''/v1/payment'' r \<Longrightarrow> \<not> app_use ''/v1/notification'' r"
  using use_clash [of "''/v1/user''" r "''/v1/worksheet''" 5]
    use_clash [of "''/v1/user''" r "''/v1/payment''" 5]
    use_clash [of "''/v1/user''" r "''/v1/notification''" 5]
    use_clash [of "''/v1/worksheet''" r "''/v1/payment''" 5]
    use_clash [of "''/v1/worksheet''" r "''/v1/notification''" 5]
    use_clash [of "''/v1/payment''" r "''/v1/notification''" 5]
  by auto

lemma post_use:
  "app_post ''/v1/user/login'' r \<Longrightarrow> app_use ''/v1/user'' r"
  "app_post ''/v1/user/register'' r \<Longrightarrow> app_use ''/v1/user'' r"
  "app_post ''/v1/payment/packages/list'' r \<Longrightarrow> app_use ''/v1/payment'' r"
  unfolding app_post_def route_path_def app_use_def
  by auto

lemma posts_disjoint:
  "app_post ''/v1/user/login'' r \<Longrightarrow> \<not> app_post ''/v1/user/register'' r"
  "app_post ''/v1/user/login'' r \<Longrightarrow> \<not> app_post ''/v1/payment/packages/list'' r"
  "app_post ''/v1/user/register'' r \<Longrightarrow> \<not> app_post ''/v1/payment/packages/list'' r"
  unfolding app_post_def route_path_def
  by auto

lemma run_skip: "\<not> m r \<Longrightarrow> run ((m, h) # ls) r = run ls r"
  by simp

lemma run_proxy:
  "run ((m, proxyOptions D t) # ls) r = (if m r then forward D t r else run ls r)"
  by (simp add: proxyOptions_def forward_def Let_def split: proxied.split option.split)

lemma validateToken_cases:
  "(\<exists>msg. validateToken D e r = Done (unauthorized msg) []) \<or>
   (\<exists>i. validateToken D e r = Next (r\<lparr>user := Some i\<rparr>))"
  by (auto simp add: validateToken_def split: option.split list.split)

lemma run_guarded:
  "run ((app_use p, validateToken D e) # (app_use p, proxyOptions D t) # ls) r =
     (if app_use p r then guarded D e t r else run ls r)"
  using validateToken_cases [of D e r]
  by (subst run.simps(2)) (auto simp add: guarded_def run_proxy simp del: run.simps(2))

lemma router_v1:
  assumes "under_v1 r"
  shows "router D e r =
    (let r0 = r\<lparr>user := None\<rparr> in
     if app_post ''/v1/user/login'' r then forward D (e ''USER_SERVICE_URL'') r0
     else if app_post ''/v1/user/register'' r then forward D (e ''USER_SERVICE_URL'') r0
     else if app_post ''/v1/payment/packages/list'' r then forward D (e ''PAYMENT_SERVICE_URL'') r0
     else if app_use ''/v1/user'' r then guarded D e (e ''USER_SERVICE_URL'') r0
     else if app_use ''/v1/worksheet'' r then guarded D e (e ''WORKSHEET_SERVICE_URL'') r0
     else if app_use ''/v1/payment'' r then guarded D e (e ''PAYMENT_SERVICE_URL'') r0
     else if app_use ''/v1/notification'' r then forward D (e ''NOTIFICATION_SERVICE_URL'') r0
     else (Not_found, []))"
  using v1_static [OF assms]
  by (simp add: router_def routes_def run_skip run_proxy run_guarded Let_def del: run.simps(2))

lemma router_static:
  assumes "\<not> under_v1 r"
  shows "router D e r =
    (if app_get ''/health'' r then (case health D (r\<lparr>user := None\<rparr>) of Done rp cs \<Rightarrow> (rp, cs))
     else if app_get ''/'' r then (case root (r\<lparr>user := None\<rparr>) of Done rp cs \<Rightarrow> (rp, cs))
     else if app_get ''/swagger.json'' r then (Json 200 (swagger_doc D e), [])
     else if app_use ''/api-docs'' r then (Docs_ui, [])
     else (Not_found, []))"
  using assms use_v1 [of r] post_v1 [of r]
  by (auto simp add: router_def routes_def health_def root_def swagger_json_def api_docs_def)

subsection \<open>Merging\<close>

lemma truthy_get_prop: "truthy d \<Longrightarrow> \<exists>v. get_prop d k = Some v"
  by (cases d) simp_all

lemma merge_result_contribution:
  "merge_result (P, C) r =
     (case contribution ''paths'' r of None \<Rightarrow> P | Some p \<Rightarrow> P ++\<^sub>f p,
      case contribution ''components'' r of None \<Rightarrow> C | Some c \<Rightarrow> C ++\<^sub>f c)"
proof (cases r)
  case Rejected
  then show ?thesis by (simp add: merge_result_def)
next
  case (Fulfilled d)
  show ?thesis
  proof (cases "truthy d")
    case True
    obtain p c where "get_prop d ''paths'' = Some p" "get_prop d ''components'' = Some c"
      using truthy_get_prop [OF True] by blast
    with True Fulfilled show ?thesis
      by (simp add: merge_result_def object_assign_def)
  next
    case False
    with Fulfilled show ?thesis by (simp add: merge_result_def)
  qed
qed

lemma foldl_merge_result:
  "foldl merge_result (P, C) rs =
     (foldl (++\<^sub>f) P (List.map_filter (contribution ''paths'') rs),
      foldl (++\<^sub>f) C (List.map_filter (contribution ''components'') rs))"
proof (induction rs arbitrary: P C)
  case Nil
  then show ?case by (simp add: List.map_filter_simps)
next
  case (Cons r rs)
  show ?case
    by (simp add: merge_result_contribution Cons.IH List.map_filter_simps split: option.split)
qed

lemma last_write_wins_Nil: "last_write_wins [] k = None"
  by (simp add: last_write_wins_def)

lemma last_write_wins_snoc:
  "last_write_wins (cs @ [c]) k =
     (case fmlookup c k of None \<Rightarrow> last_write_wins cs k | Some v \<Rightarrow> Some v)"
  by (cases "fmlookup c k") (simp_all add: last_write_wins_def)

lemma fmlookup_foldl_add:
  "fmlookup (foldl (++\<^sub>f) m cs) k =
     (case last_write_wins cs k of None \<Rightarrow> fmlookup m k | Some v \<Rightarrow> Some v)"
proof (induction cs rule: rev_induct)
  case Nil
  then show ?case by (simp add: last_write_wins_Nil)
next
  case (snoc c cs)
  show ?case
    by (cases "fmlookup c k") (auto simp add: snoc.IH last_write_wins_snoc fmlookup_dom_iff)
qed

subsection \<open>Token validation\<close>

lemma split_on_first: "\<exists>ws. split_on sep s = takeWhile (\<lambda>c. c \<noteq> sep) s # ws"
  by (induction s) (auto split: list.split)

lemma split_on_append: "sep \<notin> set w \<Longrightarrow> split_on sep (w @ sep # rest) = w # split_on sep rest"
  by (induction w) auto

lemma split_on_bearer:
  assumes "take 7 a = ''Bearer ''"
  shows "\<exists>ws. split_on CHR '' '' a = ''Bearer'' # takeWhile (\<lambda>c. c \<noteq> CHR '' '') (drop 7 a) # ws"
proof -
  have "a = ''Bearer'' @ CHR '' '' # drop 7 a"
    using append_take_drop_id [of 7 a] assms by simp
  then have "split_on CHR '' '' a = ''Bearer'' # split_on CHR '' '' (drop 7 a)"
    using split_on_append [of "CHR '' ''" "''Bearer''" "drop 7 a"] by simp
  then show ?thesis
    using split_on_first [of "CHR '' ''" "drop 7 a"] by auto
qed

lemma guarded_rejects:
  assumes "headers r ''authorization'' = None \<or>
     (\<exists>a. headers r ''authorization'' = Some a \<and>
        (take 7 a \<noteq> ''Bearer '' \<or>
         verify D (takeWhile (\<lambda>c. c \<noteq> CHR '' '') (drop 7 a)) (jwt_secret e) = None))"
  shows "\<exists>msg. guarded D e t r = (unauthorized msg, [])"
proof (cases "headers r ''authorization''")
  case None
  then show ?thesis by (auto simp add: guarded_def validateToken_def)
next
  case (Some a)
  show ?thesis
  proof (cases "take 7 a = ''Bearer ''")
    case False
    with Some show ?thesis by (auto simp add: guarded_def validateToken_def)
  next
    case True
    with Some assms
    have rejected: "verify D (takeWhile (\<lambda>c. c \<noteq> CHR '' '') (drop 7 a)) (jwt_secret e) = None"
      by simp
    obtain ws where "split_on CHR '' '' a =
        ''Bearer'' # takeWhile (\<lambda>c. c \<noteq> CHR '' '') (drop 7 a) # ws"
      using split_on_bearer [OF True] by (rule exE)
    with Some True rejected show ?thesis
      by (auto simp add: guarded_def validateToken_def)
  qed
qed

lemma router_protected:
  assumes "app_use ''/v1/user'' req \<or> app_use ''/v1/worksheet'' req \<or> app_use ''/v1/payment'' req"
    and "\<not> app_post ''/v1/user/login'' req"
    and "\<not> app_post ''/v1/user/register'' req"
    and "\<not> app_post ''/v1/payment/packages/list'' req"
  shows "\<exists>t. router D e req = guarded D e t (req\<lparr>user := None\<rparr>)"
  using assms use_v1 [of req] mounts_disjoint [of req]
  by (auto simp add: router_v1 Let_def)

lemma router_public:
  "app_post ''/v1/user/login'' req \<or> app_post ''/v1/user/register'' req \<Longrightarrow>
     router D e req = forward D (e ''USER_SERVICE_URL'') (req\<lparr>user := None\<rparr>)"
  "app_post ''/v1/payment/packages/list'' req \<Longrightarrow>
     router D e req = forward D (e ''PAYMENT_SERVICE_URL'') (req\<lparr>user := None\<rparr>)"
  "app_use ''/v1/notification'' req \<Longrightarrow>
     router D e req = forward D (e ''NOTIFICATION_SERVICE_URL'') (req\<lparr>user := None\<rparr>)"
  using post_v1 [of req] use_v1 [of req] post_use [of req] mounts_disjoint [of req]
    posts_disjoint [of req]
  by (auto simp add: router_v1 Let_def)

lemma outgoing_verify [simp]: "outgoing (D\<lparr>verify := v\<rparr>) t r = outgoing D t r"
  by (simp add: outgoing_def)

lemma forward_verify [simp]: "forward (D\<lparr>verify := v\<rparr>) t r = forward D t r"
  by (simp add: forward_def split: option.split)

lemma guarded_shape:
  "(\<exists>r'. guarded D e t r = forward D t r' \<and> validateToken D e r = Next r') \<or>
   snd (guarded D e t r) = []"
  using validateToken_cases [of D e r] by (auto simp add: guarded_def)

lemma router_shape:
  "(\<exists>t r'. router D e req = forward D t r' \<and>
      (r' = req\<lparr>user := None\<rparr> \<or> validateToken D e (req\<lparr>user := None\<rparr>) = Next r')) \<or>
   snd (router D e req) = []"
proof (cases "under_v1 req")
  case False
  then show ?thesis
    by (simp add: router_static health_def root_def)
next
  case True
  let ?r = "req\<lparr>user := None\<rparr>"
  let ?goal = "\<lambda>x. (\<exists>t r'. x = forward D t r' \<and> (r' = ?r \<or> validateToken D e ?r = Next r')) \<or>
      snd x = []"
  have fwd: "?goal (forward D t ?r)" for t
    by blast
  have grd: "?goal (guarded D e t ?r)" for t
    using guarded_shape [of D e t ?r] by blast
  have "?goal (Not_found, [])"
    by simp
  with fwd grd show ?thesis
    unfolding router_v1 [OF True] Let_def by presburger
qed

lemma router_calls:
  assumes "c \<in> set (snd (router D e req))"
  shows "\<exists>t r'. router D e req = forward D t r' \<and> c = outgoing D t r' \<and>
           (r' = req\<lparr>user := None\<rparr> \<or> validateToken D e (req\<lparr>user := None\<rparr>) = Next r')"
proof -
  from assms have "snd (router D e req) \<noteq> []"
    by auto
  then obtain t r' where g: "router D e req = forward D t r'"
    and r': "r' = req\<lparr>user := None\<rparr> \<or> validateToken D e (req\<lparr>user := None\<rparr>) = Next r'"
    using router_shape [of D e req] by blast
  from assms g have "c = outgoing D t r'"
    by (simp add: forward_def split: option.splits)
  with g r' show ?thesis by blast
qed

lemma replace_at_start_hit: "replace_at_start pat rep (pat @ rest) = rep @ rest"
  by (simp add: replace_at_start_def)

lemma replace_at_start_miss: "take (length pat) s \<noteq> pat \<Longrightarrow> replace_at_start pat rep s = s"
  by (simp add: replace_at_start_def)

lemma router_guarded:
  "app_use ''/v1/user'' req \<Longrightarrow> \<not> app_post ''/v1/user/login'' req \<Longrightarrow>
     \<not> app_post ''/v1/user/register'' req \<Longrightarrow>
     router D e req = guarded D e (e ''USER_SERVICE_URL'') (req\<lparr>user := None\<rparr>)"
  "app_use ''/v1/worksheet'' req \<Longrightarrow>
     router D e req = guarded D e (e ''WORKSHEET_SERVICE_URL'') (req\<lparr>user := None\<rparr>)"
  "app_use ''/v1/payment'' req \<Longrightarrow> \<not> app_post ''/v1/payment/packages/list'' req \<Longrightarrow>
     router D e req = guarded D e (e ''PAYMENT_SERVICE_URL'') (req\<lparr>user := None\<rparr>)"
  using use_v1 [of req] post_use [of req] mounts_disjoint [of req]
  by (auto simp add: router_v1 Let_def)


lemma decorator_headers:
  "map_of (opt_headers (proxyReqOptDecorator opts r)) ''x-user-id'' =
     (case user r of None \<Rightarrow> map_of (opt_headers opts) ''x-user-id'' | Some i \<Rightarrow> Some (userId i))"
  "map_of (opt_headers (proxyReqOptDecorator opts r)) ''x-user-role'' =
     (case user r of
        None \<Rightarrow> map_of (opt_headers opts) ''x-user-role''
      | Some i \<Rightarrow>
          if truthy (role i) then Some (role i) else map_of (opt_headers opts) ''x-user-role'')"
  "map_of (opt_headers (proxyReqOptDecorator opts r)) ''authorization'' =
     (case headers r ''authorization'' of
        None \<Rightarrow> map_of (opt_headers opts) ''authorization''
      | Some a \<Rightarrow> if a \<noteq> [] then Some (Str a) else map_of (opt_headers opts) ''authorization'')"
  by (simp_all add: proxyReqOptDecorator_def Let_def update_conv' split: option.split)

lemma map_of_embed:
  "map_of (map (\<lambda>(k, v). (k, Str v)) hs) k = map_option Str (map_of hs k)"
  by (induction hs) auto

lemma stack_secret:
  assumes "jwt_secret e' = jwt_secret e" and "\<And>k. k \<noteq> ''JWT_SECRET'' \<Longrightarrow> e' k = e k"
  shows "stack D e' = stack D e"
proof -
  have "validateToken D e' = validateToken D e"
    by (intro ext) (simp only: validateToken_def assms(1))
  moreover have "services e' = services e"
    using assms(2) by (simp add: services_def docs_url_def)
  then have "swagger_json D e' = swagger_json D e"
    by (intro ext) (simp add: swagger_json_def swagger_doc_def)
  ultimately show ?thesis
    using assms(2) by (simp add: stack_def routes_def)
qed

lemma merged_lookup:
  "fmlookup (fst (foldl merge_result (fmempty, fmempty) rs)) k =
     last_write_wins (List.map_filter (contribution ''paths'') rs) k"
  "fmlookup (snd (foldl merge_result (fmempty, fmempty) rs)) k =
     last_write_wins (List.map_filter (contribution ''components'') rs) k"
  by (simp_all add: foldl_merge_result fmlookup_foldl_add split: option.split)

lemma swagger_doc_members:
  "\<exists>doc. swagger_doc D e = Obj doc \<and>
     fmlookup doc ''paths'' =
       Some (Obj (fst (foldl merge_result (fmempty, fmempty) (map (fetch D) (services e))))) \<and>
     fmlookup doc ''components'' =
       Some (Obj (fmupd ''securitySchemes'' bearerAuth
         (snd (foldl merge_result (fmempty, fmempty) (map (fetch D) (services e)))))) \<and>
     fmlookup doc ''security'' = Some security_requirement"
  by (simp add: swagger_doc_def Let_def fmlookup_of_list)

subsection \<open>The middleware of lines 45-52\<close>

lemma gateway_infra:
  "gateway D e req =
     (case body_error req of
        Some msg \<Rightarrow> (error_handler msg, [])
      | None \<Rightarrow> if req_method req = ''OPTIONS'' then (Preflight, []) else router D e req)"
  by (simp add: gateway_def stack_def router_def express_json_def helmet_def cors_def
      split: option.split)

lemma gateway_router:
  "body_error req = None \<Longrightarrow> req_method req \<noteq> ''OPTIONS'' \<Longrightarrow> gateway D e req = router D e req"
  by (simp add: gateway_infra)

lemma gateway_calls:
  "c \<in> set (snd (gateway D e req)) \<Longrightarrow>
     gateway D e req = router D e req \<and> c \<in> set (snd (router D e req))"
  by (auto simp add: gateway_infra split: option.splits if_splits)

subsection \<open>The example inputs, evaluated\<close>

lemma demo_matches:
  "app_use ''/v1/user'' no_token_request"
  "app_use ''/v1/worksheet'' forged_token_request"
  "app_use ''/v1/payment'' basic_auth_request"
  "app_use ''/v1/user'' options_request"
  "app_use ''/v1/user'' malformed_body_request"
  "app_post ''/v1/user/login'' login_request"
  "app_post ''/v1/user/login'' hash_login_request"
  "app_post ''/v1/payment/packages/list'' packages_request"
  "app_use ''/v1/notification'' notification_request"
  "app_use ''/v1/notification'' options_notification_request"
  "app_use ''/v1/notification'' upper_case_request"
  "app_use ''/v1/user'' admin_token_request"
  "app_use ''/v1/user'' plain_token_request"
  "app_use ''/v1/user'' spoofed_role_request"
  "app_use ''/v1/user'' anonymous_token_request"
  "app_get ''/swagger.json'' docs_request"
  "app_get ''/swagger.json'' malformed_docs_request"
  by (simp_all add: app_use_def app_post_def app_get_def route_path_def pathname_def url_path_def white_space_def trim_def
      lower_char_def no_token_request_def forged_token_request_def basic_auth_request_def
      options_request_def malformed_body_request_def login_request_def hash_login_request_def
      packages_request_def notification_request_def options_notification_request_def
      upper_case_request_def admin_token_request_def plain_token_request_def
      spoofed_role_request_def anonymous_token_request_def docs_request_def
      malformed_docs_request_def)

lemma demo_not_public:
  "\<not> app_post p no_token_request"
  "\<not> app_post p forged_token_request"
  "\<not> app_post p basic_auth_request"
  "\<not> app_post p options_request"
  "\<not> app_post p malformed_body_request"
  "\<not> app_post p admin_token_request"
  "\<not> app_post p plain_token_request"
  "\<not> app_post p spoofed_role_request"
  "\<not> app_post p anonymous_token_request"
  by (simp_all add: app_post_def no_token_request_def forged_token_request_def
      basic_auth_request_def options_request_def malformed_body_request_def
      admin_token_request_def plain_token_request_def spoofed_role_request_def
      anonymous_token_request_def)

lemma demo_tokens:
  "validateToken demo_deps demo_env (admin_token_request\<lparr>user := None\<rparr>) =
     Next (admin_token_request\<lparr>user := Some \<lparr>userId = Str ''u1'', role = Str ''admin''\<rparr>\<rparr>)"
  "validateToken demo_deps demo_env (plain_token_request\<lparr>user := None\<rparr>) =
     Next (plain_token_request\<lparr>user := Some \<lparr>userId = Str ''u2'', role = Undefined\<rparr>\<rparr>)"
  "validateToken demo_deps demo_env (spoofed_role_request\<lparr>user := None\<rparr>) =
     Next (spoofed_role_request\<lparr>user := Some \<lparr>userId = Str ''u2'', role = Undefined\<rparr>\<rparr>)"
  "validateToken demo_deps demo_env (anonymous_token_request\<lparr>user := None\<rparr>) =
     Next (anonymous_token_request\<lparr>user := Some \<lparr>userId = Undefined, role = Str ''admin''\<rparr>\<rparr>)"
  by (simp_all add: validateToken_def admin_token_request_def plain_token_request_def
      spoofed_role_request_def anonymous_token_request_def demo_deps_def demo_env_def
      jwt_secret_def)

lemma demo_targets:
  "demo_env ''USER_SERVICE_URL'' = Some ''http://user''"
  "demo_env ''PAYMENT_SERVICE_URL'' = Some ''http://payment''"
  "demo_env ''NOTIFICATION_SERVICE_URL'' = Some ''http://notification''"
  "demo_env ''JWT_SECRET'' = None"
  by (simp_all add: demo_env_def)

lemma demo_proxy:
  "proxy demo_deps (outgoing D (Some ''http://user'') r) =
     Relay \<lparr>b_status = 200, b_headers = [], b_body = ''ok''\<rparr>"
  "proxy demo_deps (outgoing D (Some ''http://payment'') r) = Own_reply 504"
  "proxy demo_deps (outgoing D (Some ''http://notification'') r) =
     Pass_on ''connect ECONNREFUSED 127.0.0.1:4004''"
  by (simp_all add: demo_deps_def outgoing_def)

text \<open>The headers of the calls that the example requests lead to.\<close>

lemma demo_headers:
  "out_headers (outgoing demo_deps t
      (admin_token_request\<lparr>user := Some \<lparr>userId = Str ''u1'', role = Str ''admin''\<rparr>\<rparr>)) =
     [(''authorization'', Str ''Bearer admin-token''), (''x-user-id'', Str ''u1''),
      (''x-user-role'', Str ''admin'')]"
  "out_headers (outgoing demo_deps t
      (plain_token_request\<lparr>user := Some \<lparr>userId = Str ''u2'', role = Undefined\<rparr>\<rparr>)) =
     [(''authorization'', Str ''Bearer plain-token''), (''x-user-id'', Str ''u2'')]"
  "out_headers (outgoing demo_deps t
      (spoofed_role_request\<lparr>user := Some \<lparr>userId = Str ''u2'', role = Undefined\<rparr>\<rparr>)) =
     [(''authorization'', Str ''Bearer plain-token''), (''x-user-role'', Str ''admin''),
      (''x-user-id'', Str ''u2'')]"
  "out_headers (outgoing demo_deps t
      (anonymous_token_request\<lparr>user := Some \<lparr>userId = Undefined, role = Str ''admin''\<rparr>\<rparr>)) =
     [(''authorization'', Str ''Bearer anonymous-token''), (''x-user-id'', Undefined),
      (''x-user-role'', Str ''admin'')]"
  "out_headers (outgoing demo_deps t (login_request\<lparr>user := None\<rparr>)) =
     [(''authorization'', Str ''Bearer admin-token'')]"
  "out_headers (outgoing demo_deps t (hash_login_request\<lparr>user := None\<rparr>)) = []"
  "out_headers (outgoing demo_deps t (packages_request\<lparr>user := None\<rparr>)) = []"
  "out_headers (outgoing demo_deps t (notification_request\<lparr>user := None\<rparr>)) =
     [(''authorization'', Str ''garbage'')]"
  "out_headers (outgoing demo_deps t (upper_case_request\<lparr>user := None\<rparr>)) = []"
  by (simp_all add: outgoing_def proxyReqOptDecorator_def demo_deps_def List.map_filter_simps
      admin_token_request_def plain_token_request_def spoofed_role_request_def
      anonymous_token_request_def login_request_def hash_login_request_def
      packages_request_def notification_request_def upper_case_request_def)

lemma legal_text: "chars_ok (Str ''Bearer admin-token'')" "chars_ok (Str ''Bearer plain-token'')"
  "chars_ok (Str ''u1'')" "chars_ok (Str ''u2'')" "chars_ok (Str ''admin'')"
  "chars_ok (Str ''garbage'')" "chars_ok (Str ''Bearer anonymous-token'')"
  by (simp_all add: legal_header_char_def)

lemma demo_refused:
  "refused (outgoing demo_deps t
      (admin_token_request\<lparr>user := Some \<lparr>userId = Str ''u1'', role = Str ''admin''\<rparr>\<rparr>)) = None"
  "refused (outgoing demo_deps t
      (plain_token_request\<lparr>user := Some \<lparr>userId = Str ''u2'', role = Undefined\<rparr>\<rparr>)) = None"
  "refused (outgoing demo_deps t
      (spoofed_role_request\<lparr>user := Some \<lparr>userId = Str ''u2'', role = Undefined\<rparr>\<rparr>)) = None"
  "refused (outgoing demo_deps t (login_request\<lparr>user := None\<rparr>)) = None"
  "refused (outgoing demo_deps t (hash_login_request\<lparr>user := None\<rparr>)) = None"
  "refused (outgoing demo_deps t (packages_request\<lparr>user := None\<rparr>)) = None"
  "refused (outgoing demo_deps t (notification_request\<lparr>user := None\<rparr>)) = None"
  "refused (outgoing demo_deps t (upper_case_request\<lparr>user := None\<rparr>)) = None"
  by (simp_all add: refused_def demo_headers header_value_ok_def legal_text
      del: chars_ok.simps)

lemma demo_refused_anonymous:
  "refused (outgoing demo_deps t
      (anonymous_token_request\<lparr>user := Some \<lparr>userId = Undefined, role = Str ''admin''\<rparr>\<rparr>)) =
     Some (''Invalid value '' @ quoted ''undefined'' @ '' for header '' @ quoted ''x-user-id'')"
  by (simp add: refused_def demo_headers header_value_ok_def legal_text
      invalid_header_message_def del: chars_ok.simps)

subsection \<open>Forwarding\<close>


lemma forward_accepted:
  "refused (outgoing D t r) = None \<Longrightarrow>
     forward D t r =
       (case proxy D (outgoing D t r) of
          Relay b \<Rightarrow> Relayed b
        | Own_reply s \<Rightarrow> Proxy_reply s
        | Pass_on msg \<Rightarrow> error_handler msg,
        [outgoing D t r])"
  by (simp add: forward_def)

lemma forward_refused:
  "refused (outgoing D t r) = Some m \<Longrightarrow> forward D t r = (error_handler m, [])"
  by (simp add: forward_def)

lemma outgoing_fields [simp]:
  "target (outgoing D t r) = t"
  "path (outgoing D t r) = replace_at_start ''/v1'' ''/api'' (originalUrl r)"
  "timeout (outgoing D t r) = 30000"
  "parseReqBody (outgoing D t r)"
  by (simp_all add: outgoing_def proxyReqPathResolver_def)

lemma outgoing_anonymous:
  "out_headers (outgoing D t (req\<lparr>user := None\<rparr>)) =
     (case headers req ''authorization'' of
        None \<Rightarrow> map (\<lambda>(k, v). (k, Str v)) (base_headers D (headers req))
      | Some a \<Rightarrow>
          if a \<noteq> []
          then AList.update ''authorization'' (Str a)
                 (map (\<lambda>(k, v). (k, Str v)) (base_headers D (headers req)))
          else map (\<lambda>(k, v). (k, Str v)) (base_headers D (headers req)))"
  by (simp add: outgoing_def proxyReqOptDecorator_def split: option.split)

lemma outgoing_headers:
  "map_of (out_headers (outgoing D t r)) ''x-user-id'' =
     (case user r of
        None \<Rightarrow> map_option Str (map_of (base_headers D (headers r)) ''x-user-id'')
      | Some i \<Rightarrow> Some (userId i))"
  "map_of (out_headers (outgoing D t r)) ''x-user-role'' =
     (case user r of
        None \<Rightarrow> map_option Str (map_of (base_headers D (headers r)) ''x-user-role'')
      | Some i \<Rightarrow>
          if truthy (role i) then Some (role i)
          else map_option Str (map_of (base_headers D (headers r)) ''x-user-role''))"
  "map_of (out_headers (outgoing D t r)) ''authorization'' =
     (case headers r ''authorization'' of
        None \<Rightarrow> map_option Str (map_of (base_headers D (headers r)) ''authorization'')
      | Some a \<Rightarrow>
          if a \<noteq> [] then Some (Str a)
          else map_option Str (map_of (base_headers D (headers r)) ''authorization''))"
  by (simp_all add: outgoing_def decorator_headers map_of_embed split: option.split)

lemma error_handler_status [simp]: "status_of (error_handler m) = Some 500"
  by (simp add: error_handler_def)





text \<open>The replies to the example requests.\<close>

lemma demo_passes:
  "gateway D e admin_token_request = router D e admin_token_request"
  "gateway D e plain_token_request = router D e plain_token_request"
  "gateway D e spoofed_role_request = router D e spoofed_role_request"
  "gateway D e anonymous_token_request = router D e anonymous_token_request"
  "gateway D e login_request = router D e login_request"
  "gateway D e hash_login_request = router D e hash_login_request"
  "gateway D e packages_request = router D e packages_request"
  "gateway D e notification_request = router D e notification_request"
  "gateway D e upper_case_request = router D e upper_case_request"
  "gateway D e no_token_request = router D e no_token_request"
  "gateway D e forged_token_request = router D e forged_token_request"
  "gateway D e basic_auth_request = router D e basic_auth_request"
  "gateway D e docs_request = router D e docs_request"
  by (rule gateway_router;
      simp add: admin_token_request_def plain_token_request_def spoofed_role_request_def
        anonymous_token_request_def login_request_def hash_login_request_def
        packages_request_def notification_request_def upper_case_request_def
        no_token_request_def forged_token_request_def basic_auth_request_def
        docs_request_def)+

lemma demo_replies:
  "gateway demo_deps demo_env admin_token_request =
     (Relayed \<lparr>b_status = 200, b_headers = [], b_body = ''ok''\<rparr>,
      [outgoing demo_deps (Some ''http://user'')
         (admin_token_request\<lparr>user := Some \<lparr>userId = Str ''u1'', role = Str ''admin''\<rparr>\<rparr>)])"
  "gateway demo_deps demo_env plain_token_request =
     (Relayed \<lparr>b_status = 200, b_headers = [], b_body = ''ok''\<rparr>,
      [outgoing demo_deps (Some ''http://user'')
         (plain_token_request\<lparr>user := Some \<lparr>userId = Str ''u2'', role = Undefined\<rparr>\<rparr>)])"
  "gateway demo_deps demo_env spoofed_role_request =
     (Relayed \<lparr>b_status = 200, b_headers = [], b_body = ''ok''\<rparr>,
      [outgoing demo_deps (Some ''http://user'')
         (spoofed_role_request\<lparr>user := Some \<lparr>userId = Str ''u2'', role = Undefined\<rparr>\<rparr>)])"
  "gateway demo_deps demo_env anonymous_token_request =
     (error_handler (''Invalid value '' @ quoted ''undefined'' @ '' for header '' @ quoted ''x-user-id''),
      [])"
proof -
  have r: "gateway demo_deps demo_env admin_token_request =
      guarded demo_deps demo_env (Some ''http://user'') (admin_token_request\<lparr>user := None\<rparr>)"
    "gateway demo_deps demo_env plain_token_request =
      guarded demo_deps demo_env (Some ''http://user'') (plain_token_request\<lparr>user := None\<rparr>)"
    "gateway demo_deps demo_env spoofed_role_request =
      guarded demo_deps demo_env (Some ''http://user'') (spoofed_role_request\<lparr>user := None\<rparr>)"
    "gateway demo_deps demo_env anonymous_token_request =
      guarded demo_deps demo_env (Some ''http://user'') (anonymous_token_request\<lparr>user := None\<rparr>)"
    by (simp_all add: demo_passes router_guarded(1) demo_matches demo_not_public demo_targets)
  show "gateway demo_deps demo_env admin_token_request =
     (Relayed \<lparr>b_status = 200, b_headers = [], b_body = ''ok''\<rparr>,
      [outgoing demo_deps (Some ''http://user'')
         (admin_token_request\<lparr>user := Some \<lparr>userId = Str ''u1'', role = Str ''admin''\<rparr>\<rparr>)])"
    unfolding r by (simp add: guarded_def demo_tokens forward_accepted demo_refused demo_proxy)
  show "gateway demo_deps demo_env plain_token_request =
     (Relayed \<lparr>b_status = 200, b_headers = [], b_body = ''ok''\<rparr>,
      [outgoing demo_deps (Some ''http://user'')
         (plain_token_request\<lparr>user := Some \<lparr>userId = Str ''u2'', role = Undefined\<rparr>\<rparr>)])"
    unfolding r by (simp add: guarded_def demo_tokens forward_accepted demo_refused demo_proxy)
  show "gateway demo_deps demo_env spoofed_role_request =
     (Relayed \<lparr>b_status = 200, b_headers = [], b_body = ''ok''\<rparr>,
      [outgoing demo_deps (Some ''http://user'')
         (spoofed_role_request\<lparr>user := Some \<lparr>userId = Str ''u2'', role = Undefined\<rparr>\<rparr>)])"
    unfolding r by (simp add: guarded_def demo_tokens forward_accepted demo_refused demo_proxy)
  show "gateway demo_deps demo_env anonymous_token_request =
     (error_handler (''Invalid value '' @ quoted ''undefined'' @ '' for header '' @ quoted ''x-user-id''),
      [])"
    unfolding r by (simp only: guarded_def demo_tokens step.case forward_refused [OF demo_refused_anonymous])
qed

lemma demo_public_replies:
  "gateway demo_deps demo_env login_request =
     (Relayed \<lparr>b_status = 200, b_headers = [], b_body = ''ok''\<rparr>,
      [outgoing demo_deps (Some ''http://user'') (login_request\<lparr>user := None\<rparr>)])"
  "gateway demo_deps demo_env hash_login_request =
     (Relayed \<lparr>b_status = 200, b_headers = [], b_body = ''ok''\<rparr>,
      [outgoing demo_deps (Some ''http://user'') (hash_login_request\<lparr>user := None\<rparr>)])"
  "gateway demo_deps demo_env packages_request =
     (Proxy_reply 504,
      [outgoing demo_deps (Some ''http://payment'') (packages_request\<lparr>user := None\<rparr>)])"
  "gateway demo_deps demo_env notification_request =
     (error_handler ''connect ECONNREFUSED 127.0.0.1:4004'',
      [outgoing demo_deps (Some ''http://notification'') (notification_request\<lparr>user := None\<rparr>)])"
  "gateway demo_deps demo_env upper_case_request =
     (error_handler ''connect ECONNREFUSED 127.0.0.1:4004'',
      [outgoing demo_deps (Some ''http://notification'') (upper_case_request\<lparr>user := None\<rparr>)])"
proof -
  have r: "gateway demo_deps demo_env login_request =
      forward demo_deps (Some ''http://user'') (login_request\<lparr>user := None\<rparr>)"
    "gateway demo_deps demo_env hash_login_request =
      forward demo_deps (Some ''http://user'') (hash_login_request\<lparr>user := None\<rparr>)"
    "gateway demo_deps demo_env packages_request =
      forward demo_deps (Some ''http://payment'') (packages_request\<lparr>user := None\<rparr>)"
    "gateway demo_deps demo_env notification_request =
      forward demo_deps (Some ''http://notification'') (notification_request\<lparr>user := None\<rparr>)"
    "gateway demo_deps demo_env upper_case_request =
      forward demo_deps (Some ''http://notification'') (upper_case_request\<lparr>user := None\<rparr>)"
    by (simp_all add: demo_passes router_public demo_matches demo_targets)
  show "gateway demo_deps demo_env login_request =
     (Relayed \<lparr>b_status = 200, b_headers = [], b_body = ''ok''\<rparr>,
      [outgoing demo_deps (Some ''http://user'') (login_request\<lparr>user := None\<rparr>)])"
    unfolding r by (simp add: forward_accepted demo_refused demo_proxy)
  show "gateway demo_deps demo_env hash_login_request =
     (Relayed \<lparr>b_status = 200, b_headers = [], b_body = ''ok''\<rparr>,
      [outgoing demo_deps (Some ''http://user'') (hash_login_request\<lparr>user := None\<rparr>)])"
    unfolding r by (simp add: forward_accepted demo_refused demo_proxy)
  show "gateway demo_deps demo_env packages_request =
     (Proxy_reply 504,
      [outgoing demo_deps (Some ''http://payment'') (packages_request\<lparr>user := None\<rparr>)])"
    unfolding r by (simp add: forward_accepted demo_refused demo_proxy)
  show "gateway demo_deps demo_env notification_request =
     (error_handler ''connect ECONNREFUSED 127.0.0.1:4004'',
      [outgoing demo_deps (Some ''http://notification'') (notification_request\<lparr>user := None\<rparr>)])"
    unfolding r by (simp add: forward_accepted demo_refused demo_proxy)
  show "gateway demo_deps demo_env upper_case_request =
     (error_handler ''connect ECONNREFUSED 127.0.0.1:4004'',
      [outgoing demo_deps (Some ''http://notification'') (upper_case_request\<lparr>user := None\<rparr>)])"
    unfolding r by (simp add: forward_accepted demo_refused demo_proxy)
qed

lemma demo_early_replies:
  "gateway demo_deps demo_env options_request = (Preflight, [])"
  "gateway demo_deps demo_env options_notification_request = (Preflight, [])"
  "gateway demo_deps demo_env malformed_body_request =
     (error_handler ''Unexpected end of JSON input'', [])"
  "gateway docs_deps demo_env malformed_docs_request =
     (error_handler ''Unexpected end of JSON input'', [])"
  by (simp_all add: gateway_infra options_request_def options_notification_request_def
      malformed_body_request_def malformed_docs_request_def)

lemma public_or_guarded:
  assumes "c \<in> set (snd (router D e req))"
  shows "\<exists>t r'. c = outgoing D t r' \<and>
     (if unguarded req then r' = req\<lparr>user := None\<rparr>
      else \<exists>i. r' = req\<lparr>user := Some i\<rparr> \<and> validateToken D e (req\<lparr>user := None\<rparr>) = Next r')"
proof (cases "unguarded req")
  case True
  then obtain t where r: "router D e req = forward D t (req\<lparr>user := None\<rparr>)"
    using router_public [of req D e] by (auto simp add: unguarded_def)
  with assms have "c = outgoing D t (req\<lparr>user := None\<rparr>)"
    by (simp add: forward_def split: option.splits)
  with True show ?thesis by auto
next
  case False
  have "under_v1 req"
  proof (rule ccontr)
    assume "\<not> under_v1 req"
    then have "snd (router D e req) = []"
      by (simp add: router_static health_def root_def)
    with assms show False by simp
  qed
  with False obtain t where r: "router D e req = guarded D e t (req\<lparr>user := None\<rparr>)"
    using assms by (auto simp add: router_v1 Let_def unguarded_def split: if_splits)
  consider msg where "validateToken D e (req\<lparr>user := None\<rparr>) = Done (unauthorized msg) []"
    | i where "validateToken D e (req\<lparr>user := None\<rparr>) = Next (req\<lparr>user := Some i\<rparr>)"
    using validateToken_cases [of D e "req\<lparr>user := None\<rparr>"] by auto
  then show ?thesis
  proof cases
    case 1
    with r assms show ?thesis by (simp add: guarded_def)
  next
    case 2
    with r assms have "c = outgoing D t (req\<lparr>user := Some i\<rparr>)"
      by (simp add: guarded_def forward_def split: option.splits)
    with 2 False show ?thesis by auto
  qed
qed

section \<open>The claims\<close>

text \<open>
  C1, as the code has it. Take a request under \<^verbatim>\<open>/v1/user\<close>, \<^verbatim>\<open>/v1/worksheet\<close> or
  \<^verbatim>\<open>/v1/payment\<close> that is none of the three public routes, whose Authorization header is
  absent, does not start with \<^verbatim>\<open>Bearer\<close> and a space, or carries a token that
  \<^verbatim>\<open>jwt.verify\<close> rejects. No outbound call is issued. The answer is 401 with a body
  \<^verbatim>\<open>{success: false, message}\<close>, unless a middleware of lines 45-52 answers first: a body
  that the JSON parser rejects is answered 500 by the error handler, and an \<^verbatim>\<open>OPTIONS\<close>
  request is answered by the cors middleware.
\<close>

theorem unauthenticated_request_gets_401:
  assumes "app_use ''/v1/user'' req \<or> app_use ''/v1/worksheet'' req \<or> app_use ''/v1/payment'' req"
    and "\<not> app_post ''/v1/user/login'' req"
    and "\<not> app_post ''/v1/user/register'' req"
    and "\<not> app_post ''/v1/payment/packages/list'' req"
    and "headers req ''authorization'' = None \<or>
     (\<exists>a. headers req ''authorization'' = Some a \<and>
        (take 7 a \<noteq> ''Bearer '' \<or>
         verify D (takeWhile (\<lambda>c. c \<noteq> CHR '' '') (drop 7 a)) (jwt_secret e) = None))"
  shows "snd (gateway D e req) = [] \<and>
     (case body_error req of
        Some m \<Rightarrow>
          fst (gateway D e req) =
            Json 500 (Obj (fmap_of_list
              [(''error'', Str (if m \<noteq> [] then m else ''Internal server error''))]))
      | None \<Rightarrow>
          if req_method req = ''OPTIONS'' then fst (gateway D e req) = Preflight
          else \<exists>msg. fst (gateway D e req) =
                 Json 401 (Obj (fmap_of_list [(''success'', Bool False), (''message'', Str msg)])))"
proof -
  obtain t where "router D e req = guarded D e t (req\<lparr>user := None\<rparr>)"
    using router_protected [OF assms(1-4)] by blast
  moreover obtain msg where "guarded D e t (req\<lparr>user := None\<rparr>) = (unauthorized msg, [])"
    using guarded_rejects [of "req\<lparr>user := None\<rparr>" D e t] assms(5) by auto
  ultimately have "router D e req = (unauthorized msg, [])"
    by simp
  then show ?thesis
    by (auto simp add: gateway_infra unauthorized_def error_handler_def split: option.split)
qed

theorem unauthenticated_request_gets_401_witness:
  "(\<exists>msg. gateway demo_deps demo_env no_token_request =
      (Json 401 (Obj (fmap_of_list [(''success'', Bool False), (''message'', Str msg)])), [])) \<and>
   (\<exists>msg. gateway demo_deps demo_env forged_token_request =
      (Json 401 (Obj (fmap_of_list [(''success'', Bool False), (''message'', Str msg)])), [])) \<and>
   (\<exists>msg. gateway demo_deps demo_env basic_auth_request =
      (Json 401 (Obj (fmap_of_list [(''success'', Bool False), (''message'', Str msg)])), []))"
proof -
  have a: "headers no_token_request ''authorization'' = None"
    "body_error no_token_request = None" "req_method no_token_request \<noteq> ''OPTIONS''"
    by (simp_all add: no_token_request_def)
  have b: "headers forged_token_request ''authorization'' = Some ''Bearer forged''"
    "verify demo_deps (takeWhile (\<lambda>c. c \<noteq> CHR '' '') (drop 7 ''Bearer forged''))
       (jwt_secret demo_env) = None"
    "body_error forged_token_request = None" "req_method forged_token_request \<noteq> ''OPTIONS''"
    by (simp_all add: forged_token_request_def demo_deps_def)
  have c: "headers basic_auth_request ''authorization'' = Some ''Basic dXNlcjpwdw==''"
    "take 7 ''Basic dXNlcjpwdw=='' \<noteq> ''Bearer ''"
    "body_error basic_auth_request = None" "req_method basic_auth_request \<noteq> ''OPTIONS''"
    by (simp_all add: basic_auth_request_def)
  have "\<exists>msg. gateway demo_deps demo_env no_token_request =
      (Json 401 (Obj (fmap_of_list [(''success'', Bool False), (''message'', Str msg)])), [])"
    using unauthenticated_request_gets_401 [of no_token_request demo_deps demo_env]
      demo_matches(1) demo_not_public(1) a
    by (simp add: prod_eq_iff)
  moreover have "\<exists>msg. gateway demo_deps demo_env forged_token_request =
      (Json 401 (Obj (fmap_of_list [(''success'', Bool False), (''message'', Str msg)])), [])"
    using unauthenticated_request_gets_401 [of forged_token_request demo_deps demo_env]
      demo_matches(2) demo_not_public(2) b
    by (simp add: prod_eq_iff)
  moreover have "\<exists>msg. gateway demo_deps demo_env basic_auth_request =
      (Json 401 (Obj (fmap_of_list [(''success'', Bool False), (''message'', Str msg)])), [])"
    using unauthenticated_request_gets_401 [of basic_auth_request demo_deps demo_env]
      demo_matches(3) demo_not_public(3) c
    by (simp add: prod_eq_iff)
  ultimately show ?thesis by blast
qed

theorem unauthenticated_options_counterexample:
  "app_use ''/v1/user'' options_request \<and>
   req_method options_request \<noteq> ''POST'' \<and>
   headers options_request ''authorization'' = None \<and>
   gateway demo_deps demo_env options_request = (Preflight, []) \<and>
   status_of Preflight = Some 204 \<and>
   app_use ''/v1/user'' malformed_body_request \<and>
   req_method malformed_body_request \<noteq> ''POST'' \<and>
   headers malformed_body_request ''authorization'' = None \<and>
   gateway demo_deps demo_env malformed_body_request =
     (Json 500 (Obj (fmap_of_list [(''error'', Str ''Unexpected end of JSON input'')])), [])"
  using demo_matches(4,5) demo_early_replies(1,3)
  by (simp add: options_request_def malformed_body_request_def error_handler_def)

text \<open>
  C3, as the code has it. Take a request to one of the three public routes or under
  \<^verbatim>\<open>/v1/notification\<close>. The call \<open>c\<close> prepared for it goes to the backend of the route, with
  the path of line 17, the headers that express-http-proxy prepared and, written over
  them, a non-empty Authorization header of the request, and the options of lines 15-16.
  Unless a middleware of lines 45-52 answers first (500 for a body that the JSON parser
  rejects, the cors answer for \<^verbatim>\<open>OPTIONS\<close>), this call is issued, once, and answered as
  the proxy middleware decides; only when Node refuses a header value does no call go out
  and the answer is 500. Whatever the Authorization header, the verifier and the secret:
  \<^verbatim>\<open>validateToken\<close> plays no part.
\<close>

theorem public_routes_forwarded_without_validation:
  assumes "app_post ''/v1/user/login'' req \<or> app_post ''/v1/user/register'' req \<or>
     app_post ''/v1/payment/packages/list'' req \<or> app_use ''/v1/notification'' req"
  shows "\<exists>c.
     target c =
       (if app_post ''/v1/payment/packages/list'' req then e ''PAYMENT_SERVICE_URL''
        else if app_use ''/v1/notification'' req then e ''NOTIFICATION_SERVICE_URL''
        else e ''USER_SERVICE_URL'') \<and>
     path c = replace_at_start ''/v1'' ''/api'' (originalUrl req) \<and>
     out_headers c =
       (case headers req ''authorization'' of
          None \<Rightarrow> map (\<lambda>(k, v). (k, Str v)) (base_headers D (headers req))
        | Some a \<Rightarrow>
            if a \<noteq> []
            then AList.update ''authorization'' (Str a)
                   (map (\<lambda>(k, v). (k, Str v)) (base_headers D (headers req)))
            else map (\<lambda>(k, v). (k, Str v)) (base_headers D (headers req))) \<and>
     timeout c = 30000 \<and> parseReqBody c \<and>
     gateway D e req =
       (case body_error req of
          Some m \<Rightarrow> (error_handler m, [])
        | None \<Rightarrow>
            if req_method req = ''OPTIONS'' then (Preflight, [])
            else (case refused c of
                    Some m \<Rightarrow> (error_handler m, [])
                  | None \<Rightarrow>
                      (case proxy D c of
                         Relay b \<Rightarrow> Relayed b
                       | Own_reply s \<Rightarrow> Proxy_reply s
                       | Pass_on m \<Rightarrow> error_handler m,
                       [c]))) \<and>
     (\<forall>v s. gateway (D\<lparr>verify := v\<rparr>) (e(''JWT_SECRET'' \<mapsto> s)) req = gateway D e req)"
proof -
  let ?t = "\<lambda>e. if app_post ''/v1/payment/packages/list'' req then e ''PAYMENT_SERVICE_URL''
        else if app_use ''/v1/notification'' req then e ''NOTIFICATION_SERVICE_URL''
        else e ''USER_SERVICE_URL''"
  have r: "router D' e' req = forward D' (?t e') (req\<lparr>user := None\<rparr>)" for D' e'
    using assms router_public [of req D' e'] post_use [of req] mounts_disjoint [of req]
    by auto
  have t: "?t (e(''JWT_SECRET'' \<mapsto> s)) = ?t e" for s
    by simp
  have "gateway (D\<lparr>verify := v\<rparr>) (e(''JWT_SECRET'' \<mapsto> s)) req = gateway D e req" for v s
    unfolding gateway_infra r t by (simp split: option.split)
  then show ?thesis
    by (intro exI [of _ "outgoing D (?t e) (req\<lparr>user := None\<rparr>)"])
      (simp add: outgoing_anonymous gateway_infra r forward_def split: option.split)
qed

theorem public_routes_forwarded_without_validation_witness:
  "(\<exists>c. target c = Some ''http://user'' \<and> path c = ''/api/user/login#form'' \<and>
        out_headers c = [] \<and> timeout c = 30000 \<and>
        gateway demo_deps demo_env hash_login_request =
          (Relayed \<lparr>b_status = 200, b_headers = [], b_body = ''ok''\<rparr>, [c])) \<and>
   (\<forall>v s. gateway (demo_deps\<lparr>verify := v\<rparr>) (demo_env(''JWT_SECRET'' \<mapsto> s)) hash_login_request =
      gateway demo_deps demo_env hash_login_request)"
proof -
  obtain c where c: "target c = Some ''http://user''"
    "path c = replace_at_start ''/v1'' ''/api'' (originalUrl hash_login_request)"
    "out_headers c =
       (case headers hash_login_request ''authorization'' of
          None \<Rightarrow> map (\<lambda>(k, v). (k, Str v)) (base_headers demo_deps (headers hash_login_request))
        | Some a \<Rightarrow>
            if a \<noteq> []
            then AList.update ''authorization'' (Str a)
                   (map (\<lambda>(k, v). (k, Str v)) (base_headers demo_deps (headers hash_login_request)))
            else map (\<lambda>(k, v). (k, Str v)) (base_headers demo_deps (headers hash_login_request)))"
    "timeout c = 30000"
    and g: "gateway demo_deps demo_env hash_login_request =
       (case body_error hash_login_request of
          Some m \<Rightarrow> (error_handler m, [])
        | None \<Rightarrow>
            if req_method hash_login_request = ''OPTIONS'' then (Preflight, [])
            else (case refused c of
                    Some m \<Rightarrow> (error_handler m, [])
                  | None \<Rightarrow>
                      (case proxy demo_deps c of
                         Relay b \<Rightarrow> Relayed b
                       | Own_reply s \<Rightarrow> Proxy_reply s
                       | Pass_on m \<Rightarrow> error_handler m,
                       [c])))"
    and v: "\<forall>v s. gateway (demo_deps\<lparr>verify := v\<rparr>) (demo_env(''JWT_SECRET'' \<mapsto> s))
        hash_login_request = gateway demo_deps demo_env hash_login_request"
    using public_routes_forwarded_without_validation [of hash_login_request demo_env demo_deps]
      demo_matches(7) posts_disjoint(2) [OF demo_matches(7)] post_use(1) [OF demo_matches(7)]
      mounts_disjoint(3) [of hash_login_request] demo_targets(1)
    by auto
  have p: "path c = ''/api/user/login#form''"
    by (simp add: c(2) replace_at_start_def hash_login_request_def)
  have h: "out_headers c = []"
    by (simp add: c(3) hash_login_request_def demo_deps_def List.map_filter_simps)
  have "refused c = None"
    by (simp add: refused_def h)
  moreover have "proxy demo_deps c = Relay \<lparr>b_status = 200, b_headers = [], b_body = ''ok''\<rparr>"
    by (simp add: demo_deps_def c(1))
  moreover have "body_error hash_login_request = None"
    "req_method hash_login_request \<noteq> ''OPTIONS''"
    by (simp_all add: hash_login_request_def)
  ultimately have "gateway demo_deps demo_env hash_login_request =
      (Relayed \<lparr>b_status = 200, b_headers = [], b_body = ''ok''\<rparr>, [c])"
    using g by simp
  with c(1,4) p h v show ?thesis by blast
qed

theorem public_route_options_counterexample:
  "app_use ''/v1/notification'' options_notification_request \<and>
   gateway demo_deps demo_env options_notification_request = (Preflight, []) \<and>
   status_of Preflight = Some 204"
  using demo_matches(10) demo_early_replies(2) by simp

text \<open>
  Every call that is issued has the path of line 17: the URL with a leading \<^verbatim>\<open>/v1\<close>, in
  this spelling, replaced.
\<close>

lemma outbound_path:
  assumes "c \<in> set (snd (gateway D e req))"
  shows "path c = replace_at_start ''/v1'' ''/api'' (originalUrl req)"
proof -
  obtain t r' where c: "c = outgoing D t r'"
    and r': "r' = req\<lparr>user := None\<rparr> \<or> validateToken D e (req\<lparr>user := None\<rparr>) = Next r'"
    using gateway_calls [OF assms] router_calls [of c D e req] by blast
  have "originalUrl r' = originalUrl req"
    using r' validateToken_cases [of D e "req\<lparr>user := None\<rparr>"] by auto
  then show ?thesis
    by (simp add: c)
qed

text \<open>
  C4 fails on the code. Express matches routes without regard to letter case, the pattern
  of line 17 does not: \<^verbatim>\<open>GET /V1/notification/inbox\<close> is forwarded to the notification
  backend with its path unchanged, where the claim has \<^verbatim>\<open>/api/notification/inbox\<close>; and
  \<^verbatim>\<open>POST /V1/Payment/Packages/List/?page=2\<close> goes to the payment backend unchanged.
\<close>

theorem upper_case_prefix_not_rewritten:
  "app_use ''/v1/notification'' upper_case_request \<and>
   map target (snd (gateway demo_deps demo_env upper_case_request)) = [Some ''http://notification''] \<and>
   map path (snd (gateway demo_deps demo_env upper_case_request)) = [''/V1/notification/inbox''] \<and>
   app_post ''/v1/payment/packages/list'' packages_request \<and>
   map target (snd (gateway demo_deps demo_env packages_request)) = [Some ''http://payment''] \<and>
   map path (snd (gateway demo_deps demo_env packages_request)) =
     [''/V1/Payment/Packages/List/?page=2'']"
proof -
  have "replace_at_start ''/v1'' ''/api'' (originalUrl upper_case_request) =
      ''/V1/notification/inbox''"
    "replace_at_start ''/v1'' ''/api'' (originalUrl packages_request) =
      ''/V1/Payment/Packages/List/?page=2''"
    by (simp_all add: replace_at_start_def upper_case_request_def packages_request_def)
  then show ?thesis
    by (simp add: demo_matches demo_public_replies)
qed

text \<open>
  C5, as the code has it. Take any outbound call \<open>c\<close> that the gateway issues, and let \<open>r'\<close>
  be the request as it reaches the proxy: without identity on the public routes and under
  \<^verbatim>\<open>/v1/notification\<close>, with the identity that \<^verbatim>\<open>validateToken\<close> decoded everywhere else.
  With an identity, \<open>c\<close> carries \<^verbatim>\<open>x-user-id\<close> with its \<^verbatim>\<open>userId\<close>, and \<^verbatim>\<open>x-user-role\<close>
  with its \<^verbatim>\<open>role\<close> when that role is truthy; otherwise \<^verbatim>\<open>x-user-role\<close> is as
  express-http-proxy prepared it. Without an identity both headers are as
  express-http-proxy prepared them. An Authorization header of the request is on \<open>c\<close>
  unchanged: the gateway writes a non-empty one, and an empty one stays as
  express-http-proxy copied it.
\<close>

theorem identity_headers_on_outbound_call:
  assumes "c \<in> set (snd (gateway D e req))"
  shows "\<exists>r'.
     (if unguarded req then r' = req\<lparr>user := None\<rparr>
      else \<exists>i. r' = req\<lparr>user := Some i\<rparr> \<and> validateToken D e (req\<lparr>user := None\<rparr>) = Next r') \<and>
     (case user r' of
        None \<Rightarrow>
          map_of (out_headers c) ''x-user-id'' =
            map_option Str (map_of (base_headers D (headers req)) ''x-user-id'') \<and>
          map_of (out_headers c) ''x-user-role'' =
            map_option Str (map_of (base_headers D (headers req)) ''x-user-role'')
      | Some i \<Rightarrow>
          map_of (out_headers c) ''x-user-id'' = Some (userId i) \<and>
          (truthy (role i) \<longrightarrow> map_of (out_headers c) ''x-user-role'' = Some (role i)) \<and>
          (\<not> truthy (role i) \<longrightarrow>
             map_of (out_headers c) ''x-user-role'' =
               map_option Str (map_of (base_headers D (headers req)) ''x-user-role''))) \<and>
     (\<forall>a. headers req ''authorization'' = Some a \<and>
          (a \<noteq> [] \<or> map_of (base_headers D (headers req)) ''authorization'' = Some a) \<longrightarrow>
          map_of (out_headers c) ''authorization'' = Some (Str a))"
proof -
  have "c \<in> set (snd (router D e req))"
    using gateway_calls [OF assms] by simp
  then obtain t r' where c: "c = outgoing D t r'"
    and r': "if unguarded req then r' = req\<lparr>user := None\<rparr>
      else \<exists>i. r' = req\<lparr>user := Some i\<rparr> \<and> validateToken D e (req\<lparr>user := None\<rparr>) = Next r'"
    using public_or_guarded [of c D e req] by blast
  have "headers r' = headers req"
    using r' by (auto split: if_splits)
  then have "(case user r' of
        None \<Rightarrow>
          map_of (out_headers c) ''x-user-id'' =
            map_option Str (map_of (base_headers D (headers req)) ''x-user-id'') \<and>
          map_of (out_headers c) ''x-user-role'' =
            map_option Str (map_of (base_headers D (headers req)) ''x-user-role'')
      | Some i \<Rightarrow>
          map_of (out_headers c) ''x-user-id'' = Some (userId i) \<and>
          (truthy (role i) \<longrightarrow> map_of (out_headers c) ''x-user-role'' = Some (role i)) \<and>
          (\<not> truthy (role i) \<longrightarrow>
             map_of (out_headers c) ''x-user-role'' =
               map_option Str (map_of (base_headers D (headers req)) ''x-user-role''))) \<and>
     (\<forall>a. headers req ''authorization'' = Some a \<and>
          (a \<noteq> [] \<or> map_of (base_headers D (headers req)) ''authorization'' = Some a) \<longrightarrow>
          map_of (out_headers c) ''authorization'' = Some (Str a))"
    by (auto simp add: c outgoing_headers split: option.split)
  with r' show ?thesis by blast
qed

theorem identity_headers_on_outbound_call_witness:
  "snd (gateway demo_deps demo_env admin_token_request) =
     [outgoing demo_deps (Some ''http://user'')
        (admin_token_request\<lparr>user := Some \<lparr>userId = Str ''u1'', role = Str ''admin''\<rparr>\<rparr>)] \<and>
   map (\<lambda>c. map_of (out_headers c) ''x-user-id'')
     (snd (gateway demo_deps demo_env admin_token_request)) = [Some (Str ''u1'')] \<and>
   map (\<lambda>c. map_of (out_headers c) ''x-user-role'')
     (snd (gateway demo_deps demo_env admin_token_request)) = [Some (Str ''admin'')] \<and>
   map (\<lambda>c. map_of (out_headers c) ''authorization'')
     (snd (gateway demo_deps demo_env admin_token_request)) = [Some (Str ''Bearer admin-token'')]"
proof -
  let ?c = "outgoing demo_deps (Some ''http://user'')
        (admin_token_request\<lparr>user := Some \<lparr>userId = Str ''u1'', role = Str ''admin''\<rparr>\<rparr>)"
  have calls: "snd (gateway demo_deps demo_env admin_token_request) = [?c]"
    by (simp add: demo_replies(1))
  then have "?c \<in> set (snd (gateway demo_deps demo_env admin_token_request))"
    by simp
  from identity_headers_on_outbound_call [OF this]
  obtain r' where r': "if unguarded admin_token_request then r' = admin_token_request\<lparr>user := None\<rparr>
      else \<exists>i. r' = admin_token_request\<lparr>user := Some i\<rparr> \<and>
             validateToken demo_deps demo_env (admin_token_request\<lparr>user := None\<rparr>) = Next r'"
    and ids: "case user r' of
        None \<Rightarrow>
          map_of (out_headers ?c) ''x-user-id'' =
            map_option Str (map_of (base_headers demo_deps (headers admin_token_request)) ''x-user-id'') \<and>
          map_of (out_headers ?c) ''x-user-role'' =
            map_option Str (map_of (base_headers demo_deps (headers admin_token_request)) ''x-user-role'')
      | Some i \<Rightarrow>
          map_of (out_headers ?c) ''x-user-id'' = Some (userId i) \<and>
          (truthy (role i) \<longrightarrow> map_of (out_headers ?c) ''x-user-role'' = Some (role i)) \<and>
          (\<not> truthy (role i) \<longrightarrow>
             map_of (out_headers ?c) ''x-user-role'' =
               map_option Str
                 (map_of (base_headers demo_deps (headers admin_token_request)) ''x-user-role''))"
    and auth: "\<forall>a. headers admin_token_request ''authorization'' = Some a \<and>
          (a \<noteq> [] \<or>
           map_of (base_headers demo_deps (headers admin_token_request)) ''authorization'' = Some a) \<longrightarrow>
          map_of (out_headers ?c) ''authorization'' = Some (Str a)"
    by blast
  have "\<not> unguarded admin_token_request"
    using demo_not_public(6) [of "''/v1/user/login''"] demo_not_public(6) [of "''/v1/user/register''"]
      demo_not_public(6) [of "''/v1/payment/packages/list''"]
      mounts_disjoint(3) [OF demo_matches(12)]
    by (simp add: unguarded_def)
  with r' have "validateToken demo_deps demo_env (admin_token_request\<lparr>user := None\<rparr>) = Next r'"
    by auto
  then have "user r' = Some \<lparr>userId = Str ''u1'', role = Str ''admin''\<rparr>"
    by (auto simp add: demo_tokens(1))
  with ids have "map_of (out_headers ?c) ''x-user-id'' = Some (Str ''u1'')"
    "map_of (out_headers ?c) ''x-user-role'' = Some (Str ''admin'')"
    by simp_all
  moreover have "headers admin_token_request ''authorization'' = Some ''Bearer admin-token''"
    by (simp add: admin_token_request_def)
  with auth have "map_of (out_headers ?c) ''authorization'' = Some (Str ''Bearer admin-token'')"
    by simp
  ultimately show ?thesis
    using calls by simp
qed

theorem identity_without_role_counterexample:
  "validateToken demo_deps demo_env (plain_token_request\<lparr>user := None\<rparr>) =
     Next (plain_token_request\<lparr>user := Some \<lparr>userId = Str ''u2'', role = Undefined\<rparr>\<rparr>) \<and>
   map (\<lambda>c. map_of (out_headers c) ''x-user-id'')
     (snd (gateway demo_deps demo_env plain_token_request)) = [Some (Str ''u2'')] \<and>
   map (\<lambda>c. map_of (out_headers c) ''x-user-role'')
     (snd (gateway demo_deps demo_env plain_token_request)) = [None]"
  by (simp add: demo_tokens(2) demo_replies(2) demo_headers(2))







text \<open>
  C2, as the code has it. When \<^verbatim>\<open>JWT_SECRET\<close> is unset or empty, tokens are verified with
  the default secret \<^verbatim>\<open>secret\<close>: the gateway handles every request exactly as it would with
  \<^verbatim>\<open>JWT_SECRET=secret\<close>.
\<close>

theorem unset_secret_defaults:
  assumes "e ''JWT_SECRET'' = None \<or> e ''JWT_SECRET'' = Some []"
  shows "jwt_secret e = ''secret'' \<and>
         gateway D e req = gateway D (e(''JWT_SECRET'' \<mapsto> ''secret'')) req"
proof -
  have "jwt_secret e = ''secret''"
    using assms by (auto simp add: jwt_secret_def)
  moreover have "jwt_secret (e(''JWT_SECRET'' \<mapsto> ''secret'')) = ''secret''"
    by (simp add: jwt_secret_def)
  ultimately have "stack D (e(''JWT_SECRET'' \<mapsto> ''secret'')) = stack D e"
    by (intro stack_secret) simp_all
  with \<open>jwt_secret e = ''secret''\<close> show ?thesis
    by (simp add: gateway_def)
qed

theorem unset_secret_defaults_witness:
  "jwt_secret demo_env = ''secret'' \<and>
   gateway demo_deps demo_env admin_token_request =
     gateway demo_deps (demo_env(''JWT_SECRET'' \<mapsto> ''secret'')) admin_token_request"
proof -
  have "demo_env ''JWT_SECRET'' = None \<or> demo_env ''JWT_SECRET'' = Some []"
    by (simp add: demo_env_def)
  then show ?thesis
    by (rule unset_secret_defaults)
qed

theorem unset_secret_counterexample:
  "demo_env ''JWT_SECRET'' = None \<and>
   jwt_secret demo_env = ''secret'' \<and>
   verify demo_deps ''admin-token'' ''secret'' \<noteq> None \<and>
   gateway demo_deps demo_env admin_token_request =
     (Relayed \<lparr>b_status = 200, b_headers = [], b_body = ''ok''\<rparr>,
      [outgoing demo_deps (Some ''http://user'')
         (admin_token_request\<lparr>user := Some \<lparr>userId = Str ''u1'', role = Str ''admin''\<rparr>\<rparr>)])"
proof -
  have "demo_env ''JWT_SECRET'' = None"
    by (simp add: demo_env_def)
  moreover have "verify demo_deps ''admin-token'' ''secret'' \<noteq> None"
    "jwt_secret demo_env = ''secret''"
    by (simp_all add: demo_deps_def demo_env_def jwt_secret_def)
  ultimately show ?thesis
    using demo_replies(1) by blast
qed

lemma docs_contributions:
  "List.map_filter (contribution ''paths'') (map (fetch docs_deps) (services demo_env)) =
     [fmap_of_list [(''/login'', Str ''user login''), (''/status'', Str ''user status'')],
      fmap_of_list [(''/status'', Str ''payment status'')]]"
  "List.map_filter (contribution ''components'') (map (fetch docs_deps) (services demo_env)) =
     [fmap_of_list
        [(''schemas'', Str ''user schemas''),
         (''securitySchemes'', Obj (fmap_of_list [(''apiKey'', Str ''header'')]))],
      fmap_of_list [(''schemas'', Str ''payment schemas'')]]"
  by (simp_all add: services_def docs_url_def demo_env_def docs_deps_def user_docs_def
      payment_docs_def List.map_filter_simps or_empty_def fmlookup_of_list)

text \<open>
  C6, as the code has it. A GET of \<^verbatim>\<open>/swagger.json\<close> whose body the JSON parser accepts
  (a request without a body, for one) is answered with status 200 and one merged
  document, whichever of the four fetches fail (all of them included), and without any
  outbound proxy call. Its \<^verbatim>\<open>paths\<close> are the contributions of the backends whose fetch
  succeeded with a document, and of no other, merged in the configured order with the last
  writer of a key winning; its \<^verbatim>\<open>components\<close> are merged the same way, with the fixed
  bearer scheme written last under \<^verbatim>\<open>securitySchemes\<close>; its \<^verbatim>\<open>security\<close> is the fixed
  global requirement. (Member names other than \<^verbatim>\<open>__proto__\<close>, see \<open>object_assign\<close>.) A
  body that the parser rejects is answered 500 by the error handler before the endpoint
  runs.
\<close>

theorem documentation_survives_backend_failures:
  assumes "app_get ''/swagger.json'' req"
  shows "case body_error req of
     Some m \<Rightarrow>
       gateway D e req =
         (Json 500 (Obj (fmap_of_list
            [(''error'', Str (if m \<noteq> [] then m else ''Internal server error''))])), [])
   | None \<Rightarrow>
       \<exists>doc P C. gateway D e req = (Json 200 (Obj doc), []) \<and>
         fmlookup doc ''paths'' = Some (Obj P) \<and>
         fmlookup doc ''components'' = Some (Obj C) \<and>
         fmlookup doc ''security'' = Some security_requirement \<and>
         (\<forall>k. k \<noteq> ''__proto__'' \<longrightarrow>
            fmlookup P k =
              last_write_wins
                (List.map_filter (contribution ''paths'') (map (fetch D) (services e))) k) \<and>
         (\<forall>k. k \<noteq> ''__proto__'' \<longrightarrow>
            fmlookup C k =
              (if k = ''securitySchemes'' then Some bearerAuth
               else last_write_wins
                      (List.map_filter (contribution ''components'')
                         (map (fetch D) (services e))) k))"
proof (cases "body_error req")
  case (Some m)
  then show ?thesis
    by (simp add: gateway_infra error_handler_def)
next
  case None
  have "\<not> under_v1 req" "\<not> app_get ''/health'' req" "\<not> app_get ''/'' req"
    "req_method req \<noteq> ''OPTIONS''"
    using assms by (auto simp add: under_v1_def app_get_def route_path_def)
  with assms None have "gateway D e req = (Json 200 (swagger_doc D e), [])"
    by (simp add: gateway_router router_static)
  moreover obtain doc where "swagger_doc D e = Obj doc"
    and "fmlookup doc ''paths'' =
       Some (Obj (fst (foldl merge_result (fmempty, fmempty) (map (fetch D) (services e)))))"
    and "fmlookup doc ''components'' =
       Some (Obj (fmupd ''securitySchemes'' bearerAuth
         (snd (foldl merge_result (fmempty, fmempty) (map (fetch D) (services e))))))"
    and "fmlookup doc ''security'' = Some security_requirement"
    using swagger_doc_members [of D e] by blast
  ultimately show ?thesis
    using None by (simp add: merged_lookup)
qed

theorem documentation_survives_backend_failures_witness:
  "\<exists>doc P C. gateway docs_deps demo_env docs_request = (Json 200 (Obj doc), []) \<and>
     fmlookup doc ''paths'' = Some (Obj P) \<and>
     fmlookup doc ''components'' = Some (Obj C) \<and>
     fmlookup P ''/login'' = Some (Str ''user login'') \<and>
     fmlookup P ''/status'' = Some (Str ''payment status'') \<and>
     fmlookup P ''/worksheets'' = None \<and>
     fmlookup C ''schemas'' = Some (Str ''payment schemas'') \<and>
     fmlookup C ''securitySchemes'' = Some bearerAuth"
proof -
  have "body_error docs_request = None"
    by (simp add: docs_request_def)
  with documentation_survives_backend_failures [OF demo_matches(16), of docs_deps demo_env]
  obtain doc P C where "gateway docs_deps demo_env docs_request = (Json 200 (Obj doc), [])"
    and "fmlookup doc ''paths'' = Some (Obj P)"
    and "fmlookup doc ''components'' = Some (Obj C)"
    and P: "\<forall>k. k \<noteq> ''__proto__'' \<longrightarrow>
        fmlookup P k =
          last_write_wins
            (List.map_filter (contribution ''paths'') (map (fetch docs_deps) (services demo_env))) k"
    and C: "\<forall>k. k \<noteq> ''__proto__'' \<longrightarrow>
        fmlookup C k =
          (if k = ''securitySchemes'' then Some bearerAuth
           else last_write_wins
                  (List.map_filter (contribution ''components'')
                     (map (fetch docs_deps) (services demo_env))) k)"
    by auto
  moreover have "fmlookup P ''/login'' = Some (Str ''user login'')"
    "fmlookup P ''/status'' = Some (Str ''payment status'')"
    "fmlookup P ''/worksheets'' = None"
    by (simp_all add: P docs_contributions(1) last_write_wins_def fmlookup_of_list)
  moreover have "fmlookup C ''schemas'' = Some (Str ''payment schemas'')"
    "fmlookup C ''securitySchemes'' = Some bearerAuth"
    by (simp_all add: C docs_contributions(2) last_write_wins_def fmlookup_of_list)
  ultimately show ?thesis by blast
qed

theorem documentation_rejected_body_counterexample:
  "app_get ''/swagger.json'' malformed_docs_request \<and>
   gateway docs_deps demo_env malformed_docs_request =
     (Json 500 (Obj (fmap_of_list [(''error'', Str ''Unexpected end of JSON input'')])), []) \<and>
   status_of (fst (gateway docs_deps demo_env malformed_docs_request)) \<noteq> Some 200"
  by (simp add: demo_matches demo_early_replies(4) error_handler_def)

text \<open>
  C9. In the merged document \<^verbatim>\<open>components.securitySchemes\<close> is exactly the one fixed
  \<^verbatim>\<open>bearerAuth\<close> scheme, whatever the backends contributed under that key (their object is
  overwritten, not merged); every other key of \<^verbatim>\<open>components\<close> is merged with the last
  writer winning. (Member names other than \<^verbatim>\<open>__proto__\<close>, see \<open>object_assign\<close>.)
\<close>

theorem security_schemes_are_overwritten:
  "\<exists>doc C. swagger_doc D e = Obj doc \<and>
     fmlookup doc ''components'' = Some (Obj C) \<and>
     fmlookup C ''securitySchemes'' =
       Some (Obj (fmap_of_list
         [(''bearerAuth'',
           Obj (fmap_of_list
             [(''type'', Str ''http''), (''scheme'', Str ''bearer''),
              (''bearerFormat'', Str ''JWT'')]))])) \<and>
     (\<forall>k. k \<noteq> ''securitySchemes'' \<and> k \<noteq> ''__proto__'' \<longrightarrow>
        fmlookup C k =
          last_write_wins
            (List.map_filter (contribution ''components'') (map (fetch D) (services e))) k)"
proof -
  obtain doc where "swagger_doc D e = Obj doc"
    and "fmlookup doc ''components'' =
       Some (Obj (fmupd ''securitySchemes'' bearerAuth
         (snd (foldl merge_result (fmempty, fmempty) (map (fetch D) (services e))))))"
    using swagger_doc_members [of D e] by blast
  then show ?thesis
    by (simp add: merged_lookup bearerAuth_def)
qed

theorem security_schemes_are_overwritten_witness:
  "\<exists>doc C. swagger_doc docs_deps demo_env = Obj doc \<and>
     fmlookup doc ''components'' = Some (Obj C) \<and>
     fmlookup C ''securitySchemes'' =
       Some (Obj (fmap_of_list
         [(''bearerAuth'',
           Obj (fmap_of_list
             [(''type'', Str ''http''), (''scheme'', Str ''bearer''),
              (''bearerFormat'', Str ''JWT'')]))])) \<and>
     fmlookup C ''schemas'' = Some (Str ''payment schemas'')"
proof -
  obtain doc C where "swagger_doc docs_deps demo_env = Obj doc"
    and "fmlookup doc ''components'' = Some (Obj C)"
    and "fmlookup C ''securitySchemes'' =
       Some (Obj (fmap_of_list
         [(''bearerAuth'',
           Obj (fmap_of_list
             [(''type'', Str ''http''), (''scheme'', Str ''bearer''),
              (''bearerFormat'', Str ''JWT'')]))]))"
    and C: "\<forall>k. k \<noteq> ''securitySchemes'' \<and> k \<noteq> ''__proto__'' \<longrightarrow>
        fmlookup C k =
          last_write_wins
            (List.map_filter (contribution ''components'')
               (map (fetch docs_deps) (services demo_env))) k"
    using security_schemes_are_overwritten [of docs_deps demo_env] by blast
  moreover have "''schemas'' \<noteq> ''securitySchemes'' \<and> ''schemas'' \<noteq> ''__proto__''"
    by simp
  with C have "fmlookup C ''schemas'' = Some (Str ''payment schemas'')"
    by (simp add: docs_contributions(2) last_write_wins_def fmlookup_of_list)
  ultimately show ?thesis by blast
qed

end
